theory Spec2Isabelle
  imports Complex_Main
begin

section \<open>WeatherLink payload normalisation and derived values\<close>

text \<open>
  The development embeds two parts of the integration: the function \<open>_preprocess\<close> of
  \<open>weatherlink_2/__init__.py\<close>, which turns one upstream payload into the
  per-transmitter observation table, and the properties \<open>native_value\<close> and
  \<open>available\<close> of \<open>WLSensor\<close> in \<open>weatherlink_2/sensor.py\<close>.

  Conventions of the model.
  \<^item> A JSON scalar is \<open>JNull\<close> (Python \<open>None\<close>), a number or a string. Python's
    \<open>int\<close> and \<open>float\<close> are one constructor \<open>JNum\<close> over the rationals: Python
    compares and hashes \<open>1\<close> and \<open>1.0\<close> alike. The transforms of the normalisation
    are computed exactly. Where a result is cut into intervals afterwards (the compass
    index, the age of a record) every operation that rounds is written with the rounding
    \<open>fl\<close> applied to its exact result; \<open>fl\<close> is an argument of these definitions, and
    the rounding of Python's \<open>float\<close> is \<open>nearest_double\<close>.
  \<^item> A Python exception is a value \<open>Inl e\<close>; every subscript that can raise is a branch.
  \<^item> The enumeration \<open>DataKey\<close> lives in \<open>const.py\<close>, which is not part of the
    sources at hand. A member is identified by its name, \<open>DataKey ''TEMP_OUT''\<close> for
    \<open>DataKey.TEMP_OUT\<close>; an f-string key \<open>f"{DataKey.TEMP_EXTRA}_{numb}"\<close> is
    \<open>DataKeyN ''TEMP_EXTRA'' numb\<close>; a plain string key is \<open>StrKey\<close>. Keys written
    differently are different keys (no two canonical fields share a name).
\<close>

subsection \<open>Values, errors, dictionaries\<close>

datatype jv = JNull | JNum rat | JStr string

datatype fkey = DataKey string | DataKeyN string nat | StrKey string

text \<open>
  \<open>KeyError f\<close> is raised by a subscript with the string \<open>f\<close> on a payload
  dictionary, \<open>KeyErrorTx\<close> by \<open>outdata[tx_id]\<close>, \<open>KeyErrorTag\<close> by a subscript on a
  transmitter record.
\<close>

datatype err =
    KeyError string
  | KeyErrorTx jv
  | KeyErrorTag fkey
  | IndexError
  | TypeError
  | ValueError
  | AttributeError

type_synonym dict = "string \<rightharpoonup> jv"

type_synonym trec = "fkey \<rightharpoonup> jv"

type_synonym outdata = "jv \<rightharpoonup> trec"

datatype ApiVersion = API_V1 | API_V2

text \<open>One element of \<open>indata["sensors"]\<close>.\<close>

record sensor =
  sensor_type :: int
  data_structure_type :: int
  lsid :: "jv option"
  data :: "dict list"

text \<open>
  The payload \<open>indata\<close>: its scalar top-level entries, the sub-object
  \<open>indata["davis_current_observation"]\<close> and the list \<open>indata["sensors"]\<close>, the last
  two absent when the key is.
\<close>

record payload =
  top :: dict
  dco :: "dict option"
  sensors :: "sensor list option"

text \<open>
  The value returned by \<open>_preprocess\<close>: the entries of \<open>outdata\<close> keyed by a
  transmitter id, and the entry \<open>outdata[DataKey.UUID]\<close>. The two are kept apart: no
  transmitter id is taken to be the key \<open>DataKey.UUID\<close>.
\<close>

record snapshot =
  tx_records :: outdata
  uuid_entry :: "jv option"

definition SENSOR_TYPE_VUE_AND_VANTAGE_PRO :: "int list" where
  "SENSOR_TYPE_VUE_AND_VANTAGE_PRO =
     [23, 24, 27, 28, 33, 34, 37, 43, 44, 45, 46, 48, 49, 50, 51,
      76, 77, 78, 79, 80, 81, 82, 83, 84, 85, 87]"

definition SENSOR_TYPE_AIRLINK :: "int list" where
  "SENSOR_TYPE_AIRLINK = [323, 326]"

text \<open>\<open>d[f]\<close>, \<open>d.get(f, dflt)\<close> and \<open>sensor["data"][0]\<close>.\<close>

definition subscript :: "dict \<Rightarrow> string \<Rightarrow> err + jv" where
  "subscript d f = (case d f of None \<Rightarrow> Inl (KeyError f) | Some v \<Rightarrow> Inr v)"

definition get_default :: "('k \<rightharpoonup> jv) \<Rightarrow> 'k \<Rightarrow> jv \<Rightarrow> jv" where
  "get_default d f dflt = (case d f of None \<Rightarrow> dflt | Some v \<Rightarrow> v)"

definition data0 :: "sensor \<Rightarrow> err + dict" where
  "data0 s = (case data s of [] \<Rightarrow> Inl IndexError | d # _ \<Rightarrow> Inr d)"

text \<open>\<open>sensor["data"][0][f]\<close> and \<open>sensor["data"][0].get(f, dflt)\<close>.\<close>

definition data0_subscript :: "sensor \<Rightarrow> string \<Rightarrow> err + jv" where
  "data0_subscript s f = (case data0 s of Inl e \<Rightarrow> Inl e | Inr d \<Rightarrow> subscript d f)"

definition data0_get :: "sensor \<Rightarrow> string \<Rightarrow> jv \<Rightarrow> err + jv" where
  "data0_get s f dflt = (case data0 s of Inl e \<Rightarrow> Inl e | Inr d \<Rightarrow> Inr (get_default d f dflt))"

text \<open>\<open>outdata.setdefault(tx_id, {})\<close> and \<open>outdata[tx_id][K] = v\<close>.\<close>

definition setdefault :: "jv \<Rightarrow> outdata \<Rightarrow> outdata" where
  "setdefault tx out = (case out tx of None \<Rightarrow> out(tx \<mapsto> Map.empty) | Some _ \<Rightarrow> out)"

definition assign :: "jv \<Rightarrow> fkey \<Rightarrow> jv \<Rightarrow> outdata \<Rightarrow> err + outdata" where
  "assign tx K v out =
     (case out tx of None \<Rightarrow> Inl (KeyErrorTx tx) | Some r \<Rightarrow> Inr (out(tx \<mapsto> r(K \<mapsto> v))))"

text \<open>Python arithmetic on a field value: \<open>x / c\<close>, \<open>x * c\<close> for a float \<open>c\<close>, and \<open>x * 5 / 9\<close>.\<close>

definition py_truediv :: "jv \<Rightarrow> rat \<Rightarrow> err + jv" where
  "py_truediv x c = (case x of JNum r \<Rightarrow> Inr (JNum (r / c)) | _ \<Rightarrow> Inl TypeError)"

definition py_mul_float :: "jv \<Rightarrow> rat \<Rightarrow> err + jv" where
  "py_mul_float x c = (case x of JNum r \<Rightarrow> Inr (JNum (r * c)) | _ \<Rightarrow> Inl TypeError)"

definition py_mul5_div9 :: "jv \<Rightarrow> err + jv" where
  "py_mul5_div9 x = (case x of JNum r \<Rightarrow> Inr (JNum (r * 5 / 9)) | _ \<Rightarrow> Inl TypeError)"

subsection \<open>The assignment forms of the modern-shape rules\<close>

text \<open>
  Every line of a field-mapping rule of \<open>_preprocess\<close> has one of these forms, with
  \<open>d = sensor["data"][0]\<close> and \<open>r = outdata[tx_id]\<close>:
  \<^item> \<open>SetSensorType\<close>: \<open>r[DataKey.SENSOR_TYPE] = sensor["sensor_type"]\<close>;
  \<^item> \<open>SetDataStructure\<close>: \<open>r[DataKey.DATA_STRUCTURE] = sensor["data_structure_type"]\<close>;
  \<^item> \<open>Copy K f\<close>: \<open>r[K] = d[f]\<close>;
  \<^item> \<open>Get K f dflt\<close>: \<open>r[K] = d.get(f, dflt)\<close> (\<open>d.get(f)\<close> has \<open>dflt = None\<close>);
  \<^item> \<open>Coalesce K f dflt z\<close>: \<open>if (xx := d.get(f, dflt)) is None: xx = z\<close>, then \<open>r[K] = xx\<close>;
  \<^item> \<open>IfNotNone K f dflt\<close>: \<open>if (xx := d.get(f, dflt)) is not None: r[K] = xx\<close>;
  \<^item> \<open>BarTrend1000\<close>: \<open>if (xx := d.get("bar_trend", 0)) is not None: xx = xx / 1000\<close>,
    then \<open>r[DataKey.BAR_TREND] = xx\<close>;
  \<^item> \<open>SolarEnergy\<close>: \<open>if (xx := d.get("solar_energy_day", 0.0)) is not None:
    xx = xx * 11.622; r[DataKey.SOLAR_ENERGY] = xx\<close>;
  \<^item> \<open>DegreeDay KF KC f\<close>: \<open>if (xx := d.get(f, 0.0)) is not None: r[KF] = xx;
    r[KC] = xx = xx * 5 / 9\<close>.
\<close>

datatype stmt =
    SetSensorType
  | SetDataStructure
  | Copy fkey string
  | Get fkey string jv
  | Coalesce fkey string jv jv
  | IfNotNone fkey string jv
  | BarTrend1000
  | SolarEnergy
  | DegreeDay fkey fkey string

fun exec :: "sensor \<Rightarrow> jv \<Rightarrow> stmt \<Rightarrow> outdata \<Rightarrow> err + outdata" where
  "exec s tx SetSensorType out =
     assign tx (DataKey ''SENSOR_TYPE'') (JNum (of_int (sensor_type s))) out"
| "exec s tx SetDataStructure out =
     assign tx (DataKey ''DATA_STRUCTURE'') (JNum (of_int (data_structure_type s))) out"
| "exec s tx (Copy K f) out =
     (case data0_subscript s f of Inl e \<Rightarrow> Inl e | Inr v \<Rightarrow> assign tx K v out)"
| "exec s tx (Get K f dflt) out =
     (case data0_get s f dflt of Inl e \<Rightarrow> Inl e | Inr v \<Rightarrow> assign tx K v out)"
| "exec s tx (Coalesce K f dflt z) out =
     (case data0_get s f dflt of Inl e \<Rightarrow> Inl e
      | Inr xx \<Rightarrow> assign tx K (if xx = JNull then z else xx) out)"
| "exec s tx (IfNotNone K f dflt) out =
     (case data0_get s f dflt of Inl e \<Rightarrow> Inl e
      | Inr xx \<Rightarrow> if xx \<noteq> JNull then assign tx K xx out else Inr out)"
| "exec s tx BarTrend1000 out =
     (case data0_get s ''bar_trend'' (JNum 0) of Inl e \<Rightarrow> Inl e
      | Inr xx \<Rightarrow>
          if xx \<noteq> JNull
          then (case py_truediv xx 1000 of Inl e \<Rightarrow> Inl e
                | Inr y \<Rightarrow> assign tx (DataKey ''BAR_TREND'') y out)
          else assign tx (DataKey ''BAR_TREND'') xx out)"
| "exec s tx SolarEnergy out =
     (case data0_get s ''solar_energy_day'' (JNum 0) of Inl e \<Rightarrow> Inl e
      | Inr xx \<Rightarrow>
          if xx \<noteq> JNull
          then (case py_mul_float xx 11.622 of Inl e \<Rightarrow> Inl e
                | Inr y \<Rightarrow> assign tx (DataKey ''SOLAR_ENERGY'') y out)
          else Inr out)"
| "exec s tx (DegreeDay KF KC f) out =
     (case data0_get s f (JNum 0) of Inl e \<Rightarrow> Inl e
      | Inr xx \<Rightarrow>
          if xx \<noteq> JNull
          then (case assign tx KF xx out of Inl e \<Rightarrow> Inl e
                | Inr out1 \<Rightarrow>
                    (case py_mul5_div9 xx of Inl e \<Rightarrow> Inl e
                     | Inr y \<Rightarrow> assign tx KC y out1))
          else Inr out)"

text \<open>The lines of a rule run in order; the first exception ends the run.\<close>

fun run :: "sensor \<Rightarrow> jv \<Rightarrow> stmt list \<Rightarrow> outdata \<Rightarrow> err + outdata" where
  "run s tx [] out = Inr out"
| "run s tx (st # sts) out =
     (case exec s tx st out of Inl e \<Rightarrow> Inl e | Inr out1 \<Rightarrow> run s tx sts out1)"

text \<open>
  \<open>for numb in range(1, n + 1): r[f"{K}_{numb}"] = d[f"{f}_{numb}"]\<close>, with
  \<open>str_nat\<close> the decimal string of a number.
\<close>

fun str_nat :: "nat \<Rightarrow> string" where
  "str_nat n =
     (if n < 10 then [''0123456789'' ! n]
      else str_nat (n div 10) @ [''0123456789'' ! (n mod 10)])"

declare str_nat.simps [simp del]

definition copy_indexed :: "string \<Rightarrow> string \<Rightarrow> nat \<Rightarrow> stmt list" where
  "copy_indexed K f n =
     map (\<lambda>numb. Copy (DataKeyN K numb) (f @ ''_'' @ str_nat numb)) [1..<n + 1]"

subsection \<open>The field-mapping rules\<close>

text \<open>
  One list per rule body of \<open>_preprocess\<close>, line by line. The two leaf/soil
  branches (\<open>data_structure_type\<close> 12 and 25 of \<open>sensor_type\<close> 56) have the same
  body, as have the two indoor temperature/humidity branches (365/21, 243/12) and the
  two barometer branches (242/12, 242/19).
\<close>

definition rule_vue_10 :: "stmt list" where
  "rule_vue_10 =
     [SetSensorType,
      SetDataStructure,
      Copy (DataKey ''TIMESTAMP'') ''ts'',
      Copy (DataKey ''TEMP_OUT'') ''temp'',
      Copy (DataKey ''HUM_OUT'') ''hum'',
      Copy (DataKey ''WIND_MPH'') ''wind_speed_last'',
      Copy (DataKey ''WIND_MPH_1M'') ''wind_speed_avg_last_1_min'',
      Copy (DataKey ''WIND_MPH_2M'') ''wind_speed_avg_last_2_min'',
      Copy (DataKey ''WIND_MPH_10M'') ''wind_speed_avg_last_10_min'',
      Copy (DataKey ''WIND_GUST_MPH'') ''wind_speed_hi_last_10_min'',
      Copy (DataKey ''WIND_GUST_MPH_2M'') ''wind_speed_hi_last_2_min'',
      Copy (DataKey ''WIND_DIR'') ''wind_dir_last'',
      Copy (DataKey ''WIND_DIR_2M'') ''wind_dir_scalar_avg_last_2_min'',
      Copy (DataKey ''WIND_DIR_10M'') ''wind_dir_scalar_avg_last_10_min'',
      Copy (DataKey ''WIND_GUST_DIR'') ''wind_dir_at_hi_speed_last_10_min'',
      Copy (DataKey ''WIND_GUST_DIR_2M'') ''wind_dir_at_hi_speed_last_2_min'',
      Copy (DataKey ''DEWPOINT'') ''dew_point'',
      Copy (DataKey ''HEAT_INDEX'') ''heat_index'',
      Copy (DataKey ''THW_INDEX'') ''thw_index'',
      Copy (DataKey ''THSW_INDEX'') ''thsw_index'',
      Copy (DataKey ''WET_BULB'') ''wet_bulb'',
      Copy (DataKey ''WIND_CHILL'') ''wind_chill'',
      Get (DataKey ''RAIN_DAY'') ''rainfall_daily_in'' (JNum 0),
      Coalesce (DataKey ''RAIN_DAY_15M'') ''rainfall_last_15_min_in'' (JNum 0) (JNum 0),
      Coalesce (DataKey ''RAIN_DAY_60M'') ''rainfall_last_60_min_in'' (JNum 0) (JNum 0),
      Coalesce (DataKey ''RAIN_DAY_24H'') ''rainfall_last_24_hr_in'' (JNum 0) (JNum 0),
      Coalesce (DataKey ''RAIN_STORM'') ''rain_storm_in'' (JNum 0) (JNum 0),
      Get (DataKey ''RAIN_STORM_START'') ''rain_storm_start_time'' JNull,
      Coalesce (DataKey ''RAIN_STORM_LAST'') ''rain_storm_last_in'' (JNum 0) (JNum 0),
      Get (DataKey ''RAIN_STORM_LAST_START'') ''rain_storm_last_start_at'' JNull,
      Get (DataKey ''RAIN_STORM_LAST_END'') ''rain_storm_last_end_at'' JNull,
      Copy (DataKey ''RAIN_RATE'') ''rain_rate_last_in'',
      Copy (DataKey ''RAIN_RATE_HI'') ''rain_rate_hi_in'',
      Copy (DataKey ''RAIN_RATE_HI_15M'') ''rain_rate_hi_last_15_min_in'',
      Copy (DataKey ''RAIN_MONTH'') ''rainfall_monthly_in'',
      Copy (DataKey ''RAIN_YEAR'') ''rainfall_year_in'',
      Copy (DataKey ''TRANS_BATTERY_FLAG'') ''trans_battery_flag'',
      Copy (DataKey ''UV_INDEX'') ''uv_index'',
      Copy (DataKey ''SOLAR_RADIATION'') ''solar_rad'',
      Get (DataKey ''ET_DAY'') ''et_day'' JNull,
      Get (DataKey ''ET_MONTH'') ''et_month'' JNull,
      Get (DataKey ''ET_YEAR'') ''et_year'' JNull,
      Get (DataKey ''RX_STATE'') ''rx_state'' JNull]"

definition rule_vue_2 :: "stmt list" where
  "rule_vue_2 =
     [SetSensorType,
      SetDataStructure,
      Copy (DataKey ''TIMESTAMP'') ''ts'',
      Copy (DataKey ''TEMP_OUT'') ''temp_out'',
      Copy (DataKey ''TEMP_IN'') ''temp_in''] @
     copy_indexed ''TEMP_EXTRA'' ''temp_extra'' 7 @
     copy_indexed ''TEMP_LEAF'' ''temp_leaf'' 4 @
     copy_indexed ''TEMP_SOIL'' ''temp_soil'' 4 @
     copy_indexed ''HUM_EXTRA'' ''hum_extra'' 7 @
     copy_indexed ''MOIST_SOIL'' ''moist_soil'' 4 @
     copy_indexed ''WET_LEAF'' ''wet_leaf'' 4 @
     [Copy (DataKey ''BAR_SEA_LEVEL'') ''bar'',
      BarTrend1000,
      Copy (DataKey ''HUM_OUT'') ''hum_out'',
      Copy (DataKey ''HUM_IN'') ''hum_in'',
      Copy (DataKey ''WIND_MPH'') ''wind_speed'',
      Copy (DataKey ''WIND_GUST_MPH'') ''wind_gust_10_min'',
      Copy (DataKey ''WIND_DIR'') ''wind_dir'',
      Copy (DataKey ''DEWPOINT'') ''dew_point'',
      Copy (DataKey ''HEAT_INDEX'') ''heat_index'',
      Copy (DataKey ''WIND_CHILL'') ''wind_chill'',
      Get (DataKey ''RAIN_DAY'') ''rain_day_in'' JNull,
      Coalesce (DataKey ''RAIN_STORM'') ''rain_storm_in'' (JNum 0) (JNum 0),
      Get (DataKey ''RAIN_STORM_START'') ''rain_storm_start_time'' JNull,
      Copy (DataKey ''RAIN_RATE'') ''rain_rate_in'',
      Copy (DataKey ''RAIN_MONTH'') ''rain_month_in'',
      Copy (DataKey ''RAIN_YEAR'') ''rain_year_in'',
      Copy (DataKey ''SOLAR_RADIATION'') ''solar_rad'',
      Copy (DataKey ''UV_INDEX'') ''uv'',
      Copy (DataKey ''ET_DAY'') ''et_day'',
      Copy (DataKey ''ET_MONTH'') ''et_month'',
      Copy (DataKey ''ET_YEAR'') ''et_year'']"

definition rule_vue_23 :: "stmt list" where
  "rule_vue_23 =
     [SetSensorType,
      SetDataStructure,
      Copy (DataKey ''TIMESTAMP'') ''ts'',
      Copy (DataKey ''TEMP_OUT'') ''temp'',
      Copy (DataKey ''HUM_OUT'') ''hum'',
      Copy (DataKey ''WIND_MPH'') ''wind_speed_last'',
      Coalesce (DataKey ''WIND_GUST_MPH'') ''wind_speed_hi_last_10_min'' (JNum 0) (JNum 0),
      Copy (DataKey ''WIND_DIR'') ''wind_dir_last'',
      Coalesce (DataKey ''WIND_MPH_1M'') ''wind_speed_avg_last_1_min'' (JNum 0) (JNum 0),
      Coalesce (DataKey ''WIND_MPH_2M'') ''wind_speed_avg_last_2_min'' (JNum 0) (JNum 0),
      Coalesce (DataKey ''WIND_MPH_10M'') ''wind_speed_avg_last_10_min'' (JNum 0) (JNum 0),
      Coalesce (DataKey ''WIND_GUST_MPH_2M'') ''wind_speed_hi_last_2_min'' (JNum 0) (JNum 0),
      Coalesce (DataKey ''WIND_DIR_2M'') ''wind_dir_scalar_avg_last_2_min'' (JNum 0) (JNum 0),
      Coalesce (DataKey ''WIND_DIR_10M'') ''wind_dir_scalar_avg_last_10_min'' (JNum 0) (JNum 0),
      Coalesce (DataKey ''WIND_GUST_DIR'') ''wind_dir_at_hi_speed_last_10_min'' (JNum 0) (JNum 0),
      Coalesce (DataKey ''WIND_GUST_DIR_2M'') ''wind_dir_at_hi_speed_last_2_min'' (JNum 0) (JNum 0),
      Copy (DataKey ''DEWPOINT'') ''dew_point'',
      Copy (DataKey ''HEAT_INDEX'') ''heat_index'',
      Copy (DataKey ''THW_INDEX'') ''thw_index'',
      Copy (DataKey ''THSW_INDEX'') ''thsw_index'',
      Copy (DataKey ''WET_BULB'') ''wet_bulb'',
      Copy (DataKey ''WIND_CHILL'') ''wind_chill'',
      Get (DataKey ''RAIN_DAY'') ''rainfall_day_in'' (JNum 0),
      Coalesce (DataKey ''RAIN_DAY_15M'') ''rainfall_last_15_min_in'' (JNum 0) (JNum 0),
      Coalesce (DataKey ''RAIN_DAY_60M'') ''rainfall_last_60_min_in'' (JNum 0) (JNum 0),
      Coalesce (DataKey ''RAIN_DAY_24H'') ''rainfall_last_24_hr_in'' (JNum 0) (JNum 0),
      Coalesce (DataKey ''RAIN_STORM'') ''rain_storm_current_in'' (JNum 0) (JNum 0),
      Get (DataKey ''RAIN_STORM_START'') ''rain_storm_current_start_at'' JNull,
      Coalesce (DataKey ''RAIN_STORM_LAST'') ''rain_storm_last_in'' (JNum 0) (JNum 0),
      Get (DataKey ''RAIN_STORM_LAST_START'') ''rain_storm_last_start_at'' JNull,
      Get (DataKey ''RAIN_STORM_LAST_END'') ''rain_storm_last_end_at'' JNull,
      Coalesce (DataKey ''RAIN_RATE'') ''rain_rate_last_in'' (JNum 0) (JNum 0),
      Coalesce (DataKey ''RAIN_RATE_HI'') ''rain_rate_hi_in'' (JNum 0) (JNum 0),
      Coalesce (DataKey ''RAIN_RATE_HI_15M'') ''rain_rate_hi_last_15_min_in'' (JNum 0) (JNum 0),
      Coalesce (DataKey ''RAIN_MONTH'') ''rainfall_month_in'' (JNum 0) (JNum 0),
      Coalesce (DataKey ''RAIN_YEAR'') ''rainfall_year_in'' (JNum 0) (JNum 0),
      IfNotNone (DataKey ''TRANS_BATTERY_FLAG'') ''trans_battery_flag'' (JNum 0),
      IfNotNone (DataKey ''TRANS_BATTERY_VOLT'') ''trans_battery_volt'' (JNum 0),
      IfNotNone (DataKey ''SUPERCAP_VOLT'') ''supercap_volt'' (JNum 0),
      IfNotNone (DataKey ''SOLAR_PANEL_VOLT'') ''solar_panel_volt'' (JNum 0),
      IfNotNone (DataKey ''SOLAR_RADIATION'') ''solar_rad'' (JNum 0),
      IfNotNone (DataKey ''UV_INDEX'') ''uv_index'' (JNum 0),
      IfNotNone (DataKey ''ET_DAY'') ''et_day'' (JNum 0),
      IfNotNone (DataKey ''ET_MONTH'') ''et_month'' (JNum 0),
      IfNotNone (DataKey ''ET_YEAR'') ''et_year'' (JNum 0),
      SolarEnergy,
      DegreeDay (DataKey ''HDDF_DAY'') (DataKey ''HDDC_DAY'') ''hdd_day'',
      DegreeDay (DataKey ''CDDF_DAY'') (DataKey ''CDDC_DAY'') ''cdd_day'',
      IfNotNone (DataKey ''UV_DOSE'') ''uv_dose_day'' (JNum 0),
      IfNotNone (DataKey ''WIND_RUN'') ''wind_run_day'' (JNum 0),
      IfNotNone (DataKey ''RSSI'') ''rssi_last'' (JNum 0),
      IfNotNone (DataKey ''FREQ_ERROR'') ''freq_error_current'' (JNum 0),
      IfNotNone (DataKey ''PACKETS_MISSED'') ''packets_missed_day'' (JNum 0),
      IfNotNone (DataKey ''PACKETS_RECEIVED'') ''packets_received_day'' (JNum 0),
      IfNotNone (DataKey ''RECEPTION'') ''reception_day'' (JNum 0),
      IfNotNone (DataKey ''RESYNCS'') ''resyncs_day'' (JNum 0),
      IfNotNone (DataKey ''CRC_ERRORS'') ''crc_errors_day'' (JNum 0),
      Get (DataKey ''RX_STATE'') ''rx_state'' JNull]"

definition rule_leaf_soil :: "stmt list" where
  "rule_leaf_soil =
     [SetSensorType,
      SetDataStructure,
      Copy (DataKey ''TIMESTAMP'') ''ts''] @
     copy_indexed ''TEMP'' ''temp'' 4 @
     copy_indexed ''MOIST_SOIL'' ''moist_soil'' 4 @
     copy_indexed ''WET_LEAF'' ''wet_leaf'' 2 @
     [Copy (DataKey ''TRANS_BATTERY_FLAG'') ''trans_battery_flag'',
      Get (DataKey ''RX_STATE'') ''rx_state'' JNull]"

definition rule_temp_hum_in :: "stmt list" where
  "rule_temp_hum_in =
     [Copy (DataKey ''TEMP_IN'') ''temp_in'',
      Copy (DataKey ''HUM_IN'') ''hum_in'']"

definition rule_barometer :: "stmt list" where
  "rule_barometer =
     [Copy (DataKey ''BAR_SEA_LEVEL'') ''bar_sea_level'',
      Copy (DataKey ''BAR_TREND'') ''bar_trend'']"

definition rule_airlink :: "stmt list" where
  "rule_airlink =
     [SetSensorType,
      SetDataStructure,
      Copy (DataKey ''TIMESTAMP'') ''ts'',
      Copy (DataKey ''TEMP'') ''temp'',
      Copy (DataKey ''HUM'') ''hum'',
      Copy (DataKey ''DEWPOINT'') ''dew_point'',
      Copy (DataKey ''HEAT_INDEX'') ''heat_index'',
      Copy (DataKey ''WET_BULB'') ''wet_bulb'',
      Copy (DataKey ''PM_1'') ''pm_1'',
      Copy (DataKey ''PM_2P5'') ''pm_2p5'',
      Copy (DataKey ''PM_2P5_24H'') ''pm_2p5_24_hour'',
      Copy (DataKey ''PM_2P5_1H'') ''pm_2p5_1_hour'',
      Copy (DataKey ''PM_2P5_3H'') ''pm_2p5_3_hour'',
      Copy (DataKey ''PM_2P5_NOWCAST'') ''pm_2p5_nowcast'',
      Copy (DataKey ''PM_10'') ''pm_10'',
      Copy (DataKey ''PM_10_24H'') ''pm_10_24_hour'',
      Copy (DataKey ''PM_10_1H'') ''pm_10_1_hour'',
      Copy (DataKey ''PM_10_3H'') ''pm_10_3_hour'',
      Copy (DataKey ''PM_10_NOWCAST'') ''pm_10_nowcast'',
      Copy (DataKey ''PM_PCT_DATA'') ''pct_pm_data_nowcast'',
      Copy (DataKey ''PM_PCT_DATA_1H'') ''pct_pm_data_1_hour'',
      Copy (DataKey ''PM_PCT_DATA_3H'') ''pct_pm_data_3_hour'',
      Copy (DataKey ''PM_PCT_DATA_24H'') ''pct_pm_data_24_hour'',
      Copy (DataKey ''AQI_VAL'') ''aqi_val'',
      Copy (DataKey ''AQI_NOWCAST_VAL'') ''aqi_nowcast_val'']"

subsection \<open>Dispatch on the sensor type and the data structure type\<close>

text \<open>
  How a rule finds the transmitter id it writes to:
  \<^item> \<open>TxRequired\<close>: \<open>tx_id = sensor["data"][0]["tx_id"]\<close>, then
    \<open>outdata.setdefault(tx_id, {})\<close>;
  \<^item> \<open>TxDefault1\<close>: \<open>tx_id = sensor["data"][0].get("tx_id", 1)\<close>, then the same;
  \<^item> \<open>Lsid\<close>: \<open>tx_id = sensor["lsid"]\<close>, then the same;
  \<^item> \<open>Primary\<close>: \<open>tx_id = primary_tx_id\<close>, with no \<open>setdefault\<close>.
\<close>

datatype target = TxRequired | TxDefault1 | Lsid | Primary

fun resolve_target :: "jv \<Rightarrow> sensor \<Rightarrow> target \<Rightarrow> outdata \<Rightarrow> err + (jv \<times> outdata)" where
  "resolve_target primary s TxRequired out =
     (case data0_subscript s ''tx_id'' of Inl e \<Rightarrow> Inl e
      | Inr tx \<Rightarrow> Inr (tx, setdefault tx out))"
| "resolve_target primary s TxDefault1 out =
     (case data0_get s ''tx_id'' (JNum 1) of Inl e \<Rightarrow> Inl e
      | Inr tx \<Rightarrow> Inr (tx, setdefault tx out))"
| "resolve_target primary s Lsid out =
     (case lsid s of None \<Rightarrow> Inl (KeyError ''lsid'')
      | Some tx \<Rightarrow> Inr (tx, setdefault tx out))"
| "resolve_target primary s Primary out = Inr (primary, out)"

definition apply_rule :: "jv \<Rightarrow> sensor \<Rightarrow> target \<Rightarrow> stmt list \<Rightarrow> outdata \<Rightarrow> err + outdata" where
  "apply_rule primary s tgt sts out =
     (case resolve_target primary s tgt out of Inl e \<Rightarrow> Inl e
      | Inr (tx, out1) \<Rightarrow> run s tx sts out1)"

text \<open>
  The ten \<open>if\<close> statements of the loop body, in source order: the condition, the way
  the transmitter id is found and the body.
\<close>

definition mapping_rules :: "((sensor \<Rightarrow> bool) \<times> target \<times> stmt list) list" where
  "mapping_rules =
     [(\<lambda>s. (sensor_type s \<in> set SENSOR_TYPE_VUE_AND_VANTAGE_PRO \<or> sensor_type s \<in> set [55])
            \<and> data_structure_type s = 10,
       TxRequired, rule_vue_10),
      (\<lambda>s. sensor_type s \<in> set SENSOR_TYPE_VUE_AND_VANTAGE_PRO \<and> data_structure_type s = 2,
       TxDefault1, rule_vue_2),
      (\<lambda>s. (sensor_type s \<in> set SENSOR_TYPE_VUE_AND_VANTAGE_PRO \<or> sensor_type s \<in> set [55])
            \<and> data_structure_type s = 23,
       TxRequired, rule_vue_23),
      (\<lambda>s. sensor_type s = 56 \<and> data_structure_type s = 12, TxRequired, rule_leaf_soil),
      (\<lambda>s. sensor_type s = 56 \<and> data_structure_type s = 25, TxRequired, rule_leaf_soil),
      (\<lambda>s. sensor_type s = 365 \<and> data_structure_type s = 21, Primary, rule_temp_hum_in),
      (\<lambda>s. sensor_type s = 243 \<and> data_structure_type s = 12, Primary, rule_temp_hum_in),
      (\<lambda>s. sensor_type s = 242 \<and> data_structure_type s = 12, Primary, rule_barometer),
      (\<lambda>s. sensor_type s = 242 \<and> data_structure_type s = 19, Primary, rule_barometer),
      (\<lambda>s. sensor_type s \<in> set SENSOR_TYPE_AIRLINK \<and> data_structure_type s = 16,
       Lsid, rule_airlink)]"

fun process_rules ::
  "jv \<Rightarrow> sensor \<Rightarrow> ((sensor \<Rightarrow> bool) \<times> target \<times> stmt list) list \<Rightarrow> outdata \<Rightarrow> err + outdata"
where
  "process_rules primary s [] out = Inr out"
| "process_rules primary s ((c, tgt, sts) # rs) out =
     (case (if c s then apply_rule primary s tgt sts out else Inr out) of
        Inl e \<Rightarrow> Inl e
      | Inr out1 \<Rightarrow> process_rules primary s rs out1)"

text \<open>The body of \<open>for sensor in indata["sensors"]\<close>, and the loop.\<close>

definition process_sensor :: "jv \<Rightarrow> sensor \<Rightarrow> outdata \<Rightarrow> err + outdata" where
  "process_sensor primary s out = process_rules primary s mapping_rules out"

fun process_sensors :: "jv \<Rightarrow> sensor list \<Rightarrow> outdata \<Rightarrow> err + outdata" where
  "process_sensors primary [] out = Inr out"
| "process_sensors primary (s # ss) out =
     (case process_sensor primary s out of Inl e \<Rightarrow> Inl e
      | Inr out1 \<Rightarrow> process_sensors primary ss out1)"

subsection \<open>The two payload shapes\<close>

text \<open>
  \<open>mktime_tz(parsedate_tz(x))\<close> of \<open>email.utils\<close>. The parser of the standard library
  is the parameter \<open>rfc822\<close>, which gives the epoch seconds of a date string and
  \<open>None\<close> where \<open>parsedate_tz\<close> returns \<open>None\<close> (then \<open>mktime_tz\<close> raises
  \<open>TypeError\<close>). \<open>parsedate_tz\<close> returns \<open>None\<close> for a falsy argument and calls
  \<open>split\<close> on any other.
\<close>

definition mktime_parsedate :: "(string \<Rightarrow> int option) \<Rightarrow> jv \<Rightarrow> err + jv" where
  "mktime_parsedate rfc822 x =
     (case x of
        JNull \<Rightarrow> Inl TypeError
      | JNum r \<Rightarrow> if r = 0 then Inl TypeError else Inl AttributeError
      | JStr t \<Rightarrow> (case rfc822 t of None \<Rightarrow> Inl TypeError | Some n \<Rightarrow> Inr (JNum (of_int n))))"

text \<open>The branch \<open>ApiVersion.API_V1\<close> of \<open>_preprocess\<close>.\<close>

definition legacy :: "(string \<Rightarrow> int option) \<Rightarrow> payload \<Rightarrow> snapshot \<Rightarrow> err + snapshot" where
  "legacy rfc822 indata snap =
     (let tx_id = JNum 1;
          out = setdefault tx_id (tx_records snap)
      in case dco indata of
           None \<Rightarrow> Inl (KeyError ''davis_current_observation'')
         | Some d \<Rightarrow>
             (case subscript (top indata) ''observation_time_rfc822'' of
                Inl e \<Rightarrow> Inl e
              | Inr t \<Rightarrow>
                  (case mktime_parsedate rfc822 t of
                     Inl e \<Rightarrow> Inl e
                   | Inr ts \<Rightarrow>
                       Inr (snap\<lparr>tx_records := out(tx_id \<mapsto>
                         (case out tx_id of None \<Rightarrow> Map.empty | Some r \<Rightarrow> r)
                         (StrKey ''DID'' \<mapsto> get_default d ''DID'' JNull,
                          StrKey ''station_name'' \<mapsto> get_default d ''station_name'' JNull,
                          DataKey ''TEMP_OUT'' \<mapsto> get_default (top indata) ''temp_f'' JNull,
                          DataKey ''HEAT_INDEX'' \<mapsto> get_default (top indata) ''heat_index_f'' JNull,
                          DataKey ''WIND_CHILL'' \<mapsto> get_default (top indata) ''wind_chill_f'' JNull,
                          DataKey ''TEMP_IN'' \<mapsto> get_default d ''temp_in_f'' JNull,
                          DataKey ''HUM_IN'' \<mapsto> get_default d ''relative_humidity_in'' JNull,
                          DataKey ''HUM_OUT'' \<mapsto> get_default (top indata) ''relative_humidity'' JNull,
                          DataKey ''BAR_SEA_LEVEL'' \<mapsto> get_default (top indata) ''pressure_in'' JNull,
                          DataKey ''WIND_MPH'' \<mapsto> get_default (top indata) ''wind_mph'' JNull,
                          DataKey ''WIND_GUST_MPH'' \<mapsto> get_default d ''wind_ten_min_gust_mph'' JNull,
                          DataKey ''WIND_DIR'' \<mapsto> get_default (top indata) ''wind_degrees'' JNull,
                          DataKey ''DEWPOINT'' \<mapsto> get_default (top indata) ''dewpoint_f'' JNull,
                          DataKey ''RAIN_DAY'' \<mapsto> get_default d ''rain_day_in'' JNull,
                          DataKey ''RAIN_STORM'' \<mapsto> get_default d ''rain_storm_in'' (JNum 0),
                          DataKey ''RAIN_RATE'' \<mapsto> get_default d ''rain_rate_in_per_hr'' JNull,
                          DataKey ''RAIN_MONTH'' \<mapsto> get_default d ''rain_month_in'' JNull,
                          DataKey ''RAIN_YEAR'' \<mapsto> get_default d ''rain_year_in'' JNull,
                          DataKey ''BAR_TREND'' \<mapsto> get_default d ''pressure_tendency_string'' JNull,
                          DataKey ''SOLAR_RADIATION'' \<mapsto> get_default d ''solar_radiation'' JNull,
                          DataKey ''UV_INDEX'' \<mapsto> get_default d ''uv_index'' JNull,
                          DataKey ''ET_DAY'' \<mapsto> get_default d ''et_day'' JNull,
                          DataKey ''ET_MONTH'' \<mapsto> get_default d ''et_month'' JNull,
                          DataKey ''ET_YEAR'' \<mapsto> get_default d ''et_year'' JNull,
                          DataKey ''TIMESTAMP'' \<mapsto> ts))\<rparr>))))"

text \<open>The branch \<open>ApiVersion.API_V2\<close> of \<open>_preprocess\<close>.\<close>

definition modern :: "jv \<Rightarrow> payload \<Rightarrow> snapshot \<Rightarrow> err + snapshot" where
  "modern primary_tx_id indata snap =
     (let out = setdefault primary_tx_id (tx_records snap)
      in case subscript (top indata) ''station_id_uuid'' of
           Inl e \<Rightarrow> Inl e
         | Inr u \<Rightarrow>
             (case sensors indata of
                None \<Rightarrow> Inl (KeyError ''sensors'')
              | Some ss \<Rightarrow>
                  (case process_sensors primary_tx_id ss out of
                     Inl e \<Rightarrow> Inl e
                   | Inr out1 \<Rightarrow> Inr \<lparr>tx_records = out1, uuid_entry = Some u\<rparr>)))"

text \<open>
  \<open>_preprocess\<close>: \<open>outdata = {}\<close>, the two \<open>if\<close> statements on the configured API
  version, \<open>return outdata\<close>. The configured version and
  \<open>hass.data[DOMAIN][entry.entry_id]["primary_tx_id"]\<close> are arguments.
\<close>

definition preprocess ::
  "(string \<Rightarrow> int option) \<Rightarrow> ApiVersion \<Rightarrow> jv \<Rightarrow> payload \<Rightarrow> err + snapshot"
where
  "preprocess rfc822 api primary_tx_id indata =
     (case (if api = API_V1
            then legacy rfc822 indata \<lparr>tx_records = Map.empty, uuid_entry = None\<rparr>
            else Inr \<lparr>tx_records = Map.empty, uuid_entry = None\<rparr>) of
        Inl e \<Rightarrow> Inl e
      | Inr snap \<Rightarrow> if api = API_V2 then modern primary_tx_id indata snap else Inr snap)"

subsection \<open>Double arithmetic\<close>

text \<open>
  Python's \<open>float\<close> is the IEEE 754 double, and an operation returns the double nearest
  to its exact result, a tie going to the even neighbour. The doubles between \<open>2 powi e\<close>
  and \<open>2 powi (e + 1)\<close> are the multiples of \<open>2 powi (e - 52)\<close>, for \<open>e\<close> from -1022 to
  1023; below \<open>2 powi (- 1022)\<close> they are the multiples of \<open>2 powi (- 1074)\<close>.
  \<open>binade 2045 x\<close> is that \<open>e\<close> for \<open>x\<close>. Overflow is left out: \<open>nearest_double\<close> is the
  rounding of the numbers below the largest double.
\<close>

definition round_half_even :: "rat \<Rightarrow> int" where
  "round_half_even x =
     (let n = \<lfloor>x\<rfloor>; d = x - of_int n
      in if d < 1 / 2 then n else if 1 / 2 < d then n + 1 else if even n then n else n + 1)"

primrec binade :: "nat \<Rightarrow> rat \<Rightarrow> int" where
  "binade 0 x = - 1022"
| "binade (Suc n) x =
     (if 2 powi (int (Suc n) - 1022) \<le> \<bar>x\<bar> then int (Suc n) - 1022 else binade n x)"

definition nearest_double :: "rat \<Rightarrow> rat" where
  "nearest_double x =
     (let u = 2 powi (binade 2045 x - 52) in of_int (round_half_even (x / u)) * u)"

subsection \<open>Derived values: \<open>WLSensor.native_value\<close>\<close>


















text \<open>
  \<open>native_value\<close>, with \<open>coordinator_data\<close> the transmitter records of the snapshot,
  \<open>tx_id\<close> the transmitter of the entity, \<open>key\<close> and \<open>tag\<close> the two attributes of its
  description. The rounding \<open>fl\<close> is used in the wind-direction branch only.
\<close>

definition record_of :: "outdata \<Rightarrow> jv \<Rightarrow> err + trec" where
  "record_of coordinator_data tx_id =
     (case coordinator_data tx_id of None \<Rightarrow> Inl (KeyErrorTx tx_id) | Some r \<Rightarrow> Inr r)"


subsection \<open>Freshness: \<open>WLSensor.available\<close>\<close>

text \<open>
  \<open>dt_util.utc_from_timestamp\<close> belongs to the host platform and is a parameter: it
  gives the instant of the datetime it builds, in epoch seconds, or the exception it
  raises (for \<open>None\<close>, or for a number outside the range of \<open>datetime\<close>). The current
  time \<open>dt_util.now()\<close> is the argument \<open>now\<close>, in epoch seconds; the constant
  \<open>UNAVAILABLE_AFTER_SECONDS\<close> of \<open>const.py\<close> is an argument as well.
  \<open>diff.total_seconds()\<close> is the difference rounded to a double, and the division by
  60 rounds again.
\<close>

definition available ::
  "(rat \<Rightarrow> rat) \<Rightarrow> (jv \<Rightarrow> err + rat) \<Rightarrow> bool \<Rightarrow> rat \<Rightarrow> rat \<Rightarrow> outdata \<Rightarrow> jv \<Rightarrow> err + bool"
where
  "available fl utc_from_timestamp last_update_success UNAVAILABLE_AFTER_SECONDS now
     coordinator_data tx_id =
     (if \<not> last_update_success then Inr False
      else (case record_of coordinator_data tx_id of
              Inl e \<Rightarrow> Inl e
            | Inr r \<Rightarrow>
                (case utc_from_timestamp (get_default r (DataKey ''TIMESTAMP'') JNull) of
                   Inl e \<Rightarrow> Inl e
                 | Inr dt_update \<Rightarrow>
                     Inr (fl (fl (now - dt_update) / 60) < UNAVAILABLE_AFTER_SECONDS))))"

subsection \<open>Notions used to state the properties\<close>

text \<open>
  The keys a line may assign, the payload fields a line reads with a subscript (which
  raises when the field is missing), and the lines that compute with the value read.
\<close>

fun writes :: "stmt \<Rightarrow> fkey list" where
  "writes SetSensorType = [DataKey ''SENSOR_TYPE'']"
| "writes SetDataStructure = [DataKey ''DATA_STRUCTURE'']"
| "writes (Copy K f) = [K]"
| "writes (Get K f dflt) = [K]"
| "writes (Coalesce K f dflt z) = [K]"
| "writes (IfNotNone K f dflt) = [K]"
| "writes BarTrend1000 = [DataKey ''BAR_TREND'']"
| "writes SolarEnergy = [DataKey ''SOLAR_ENERGY'']"
| "writes (DegreeDay KF KC f) = [KF, KC]"

fun stmt_required :: "stmt \<Rightarrow> string list" where
  "stmt_required (Copy K f) = [f]"
| "stmt_required _ = []"


text \<open>
  The lines of a rule that put zero for a field that is absent or \<open>None\<close>, as pairs of
  the key written and the field read.
\<close>

fun coalesced :: "stmt list \<Rightarrow> (fkey \<times> string) list" where
  "coalesced [] = []"
| "coalesced (Coalesce K f dflt z # sts) =
     (if dflt = JNum 0 \<and> z = JNum 0 then [(K, f)] else []) @ coalesced sts"
| "coalesced (st # sts) = coalesced sts"

fun target_required :: "target \<Rightarrow> string list" where
  "target_required TxRequired = [''tx_id'']"
| "target_required _ = []"

text \<open>
  A sensor record is recognized when the condition of one of the ten rules holds for its
  \<open>(sensor_type, data_structure_type)\<close> pair. Its required fields are the fields of
  \<open>sensor["data"][0]\<close> that the matching rules read with a subscript.
\<close>

definition recognized :: "sensor \<Rightarrow> bool" where
  "recognized s = list_ex (\<lambda>(c, tgt, sts). c s) mapping_rules"

definition required_fields :: "sensor \<Rightarrow> string list" where
  "required_fields s =
     concat (map (\<lambda>(c, tgt, sts).
                    if c s then target_required tgt @ concat (map stmt_required sts) else [])
                 mapping_rules)"

definition data0_has :: "sensor \<Rightarrow> string \<Rightarrow> bool" where
  "data0_has s f = (case data s of [] \<Rightarrow> False | d # _ \<Rightarrow> d f \<noteq> None)"

definition missing_required :: "sensor \<Rightarrow> bool" where
  "missing_required s = list_ex (\<lambda>f. \<not> data0_has s f) (required_fields s)"

text \<open>
  The keys written by the rules that target the record of the primary transmitter
  (indoor temperature/humidity and barometer sensors).
\<close>

definition satellite_keys :: "fkey set" where
  "satellite_keys =
     {DataKey ''TEMP_IN'', DataKey ''HUM_IN'', DataKey ''BAR_SEA_LEVEL'', DataKey ''BAR_TREND''}"

text \<open>
  Two properties of a rounding, which \<open>nearest_double\<close> has: a multiple of a quarter of
  size at most a million is a double, so it is not changed; and a number of size at most
  a thousand is changed by less than a billionth.
\<close>

definition quarter :: "rat \<Rightarrow> bool" where
  "quarter x \<longleftrightarrow> 4 * x \<in> \<int> \<and> \<bar>x\<bar> \<le> 1000000"

definition exact_on_quarters :: "(rat \<Rightarrow> rat) \<Rightarrow> bool" where
  "exact_on_quarters fl \<longleftrightarrow> (\<forall>x. quarter x \<longrightarrow> fl x = x)"


text \<open>The value of a field in the result of \<open>_preprocess\<close>, \<open>None\<close> when there is none.\<close>

definition snapshot_field :: "err + snapshot \<Rightarrow> jv \<Rightarrow> fkey \<Rightarrow> jv option" where
  "snapshot_field res tx K =
     (case res of
        Inl e \<Rightarrow> None
      | Inr snap \<Rightarrow> (case tx_records snap tx of None \<Rightarrow> None | Some r \<Rightarrow> r K))"

text \<open>
  What a run on the record of \<open>tx\<close> may change: no other record, and in the record of
  \<open>tx\<close> no key is removed and only keys of \<open>W\<close> change.
\<close>

definition frame :: "jv \<Rightarrow> fkey set \<Rightarrow> outdata \<Rightarrow> outdata \<Rightarrow> bool" where
  "frame tx W out out' \<longleftrightarrow>
     (\<forall>t. t \<noteq> tx \<longrightarrow> out' t = out t) \<and>
     (out tx = None \<longrightarrow> out' tx = None) \<and>
     (\<forall>r. out tx = Some r \<longrightarrow>
        (\<exists>r'. out' tx = Some r' \<and> dom r \<subseteq> dom r' \<and> (\<forall>K. K \<notin> W \<longrightarrow> r' K = r K)))"

text \<open>
  The invariant of the loop for the timestamps: a record without a timestamp is the
  record of the primary transmitter and holds satellite keys only.
\<close>

definition timestamped :: "jv \<Rightarrow> outdata \<Rightarrow> bool" where
  "timestamped primary out \<longleftrightarrow>
     (\<forall>tx r. out tx = Some r \<longrightarrow>
        DataKey ''TIMESTAMP'' \<in> dom r \<or> (tx = primary \<and> dom r \<subseteq> satellite_keys))"

text \<open>
  An example: a console record of structure 23 from transmitter 2 that has no
  \<open>rainfall_last_15_min_in\<close>, a \<open>rainfall_last_60_min_in\<close> of \<open>None\<close>, a solar
  energy of 100 Langleys and 18 heating degree days.
\<close>

definition console_23_example :: sensor where
  "console_23_example =
     \<lparr>sensor_type = 37, data_structure_type = 23, lsid = None,
      data = [[''tx_id'' \<mapsto> JNum 2, ''ts'' \<mapsto> JNum 1700000000, ''temp'' \<mapsto> JNum 72,
               ''hum'' \<mapsto> JNum 50, ''wind_speed_last'' \<mapsto> JNum 3, ''wind_dir_last'' \<mapsto> JNum 10,
               ''dew_point'' \<mapsto> JNum 52, ''heat_index'' \<mapsto> JNum 72, ''thw_index'' \<mapsto> JNum 72,
               ''thsw_index'' \<mapsto> JNum 74, ''wet_bulb'' \<mapsto> JNum 60, ''wind_chill'' \<mapsto> JNum 72,
               ''rainfall_last_60_min_in'' \<mapsto> JNull, ''solar_energy_day'' \<mapsto> JNum 100,
               ''hdd_day'' \<mapsto> JNum 18]]\<rparr>"

text \<open>
  The same record with a daily rain total of \<open>None\<close>, and a payload with an indoor
  sensor record only.
\<close>

definition console_23_null_daily :: sensor where
  "console_23_null_daily =
     \<lparr>sensor_type = 37, data_structure_type = 23, lsid = None,
      data = [[''tx_id'' \<mapsto> JNum 2, ''ts'' \<mapsto> JNum 1700000000, ''temp'' \<mapsto> JNum 72,
               ''hum'' \<mapsto> JNum 50, ''wind_speed_last'' \<mapsto> JNum 3, ''wind_dir_last'' \<mapsto> JNum 10,
               ''dew_point'' \<mapsto> JNum 52, ''heat_index'' \<mapsto> JNum 72, ''thw_index'' \<mapsto> JNum 72,
               ''thsw_index'' \<mapsto> JNum 74, ''wet_bulb'' \<mapsto> JNum 60, ''wind_chill'' \<mapsto> JNum 72,
               ''rainfall_last_60_min_in'' \<mapsto> JNull, ''solar_energy_day'' \<mapsto> JNum 100,
               ''hdd_day'' \<mapsto> JNum 18, ''rainfall_day_in'' \<mapsto> JNull]]\<rparr>"


section \<open>Properties\<close>

subsection \<open>Rounding to the nearest double\<close>

lemma exact_on_quartersD: "exact_on_quarters fl \<Longrightarrow> quarter x \<Longrightarrow> fl x = x"
  by (simp add: exact_on_quarters_def)

lemma binade_upper:
  "\<bar>x\<bar> < 2 powi (k + 1) \<Longrightarrow> - 1022 \<le> k \<Longrightarrow> binade n x \<le> k"
proof (induction n)
  case 0
  then show ?case by simp
next
  case (Suc n)
  show ?case
  proof (cases "2 powi (int (Suc n) - 1022) \<le> \<bar>x\<bar>")
    case True
    with Suc.prems(1) have "(2::rat) powi (int (Suc n) - 1022) < 2 powi (k + 1)" by simp
    then have "int (Suc n) - 1022 < k + 1"
      by (metis not_less power_int_increasing one_le_numeral)
    with True show ?thesis by simp
  next
    case False
    with Suc show ?thesis by simp
  qed
qed


lemma round_half_even_int: "round_half_even (of_int m) = m"
  by (simp add: round_half_even_def)


lemma nearest_double_exact:
  assumes "x / 2 powi (binade 2045 x - 52) = of_int m"
  shows "nearest_double x = x"
proof -
  have "(2::rat) powi (binade 2045 x - 52) \<noteq> 0" by simp
  with assms have "x = of_int m * 2 powi (binade 2045 x - 52)"
    by (simp add: field_simps)
  with assms show ?thesis
    by (simp add: nearest_double_def round_half_even_int)
qed

lemma exact_on_quarters_nearest_double: "exact_on_quarters nearest_double"
  unfolding exact_on_quarters_def
proof (intro allI impI)
  fix x :: rat
  assume q: "quarter x"
  then obtain m :: int where m: "4 * x = of_int m" by (auto simp add: quarter_def Ints_def)
  from q have "\<bar>x\<bar> < 2 powi (19 + 1)" by (simp add: quarter_def)
  then have e: "binade 2045 x \<le> 19" by (rule binade_upper) simp
  define k where "k = nat (50 - binade 2045 x)"
  with e have k: "int k = 50 - binade 2045 x" by simp
  have "x / 2 powi (binade 2045 x - 52) = x * 2 powi (52 - binade 2045 x)"
    by (simp add: power_int_diff field_simps)
  also have "52 - binade 2045 x = 2 + int k" using k by simp
  also have "x * 2 powi (2 + int k) = (4 * x) * 2 ^ k"
    by (simp add: power_int_add)
  also have "\<dots> = of_int (m * 2 ^ k)" using m by simp
  finally show "nearest_double x = x" by (rule nearest_double_exact)
qed





subsection \<open>The pressure trend\<close>







subsection \<open>Freshness\<close>

lemma available_converted:
  "cd tx = Some r \<Longrightarrow> utc (get_default r (DataKey ''TIMESTAMP'') JNull) = Inr t \<Longrightarrow>
   available fl utc ok thr now cd tx = Inr (ok \<and> fl (fl (now - t) / 60) < thr)"
  by (simp add: available_def record_of_def)

text \<open>
  Claim C3, as the code has it. For a transmitter record whose timestamp
  \<open>dt_util.utc_from_timestamp\<close> converts to an instant, \<open>available\<close> is true exactly
  when the last update of the coordinator succeeded and the age in minutes, as the
  double arithmetic computes it, is strictly below the threshold: with a threshold of
  60 a record whose instant is 59 minutes before now is available and one whose instant
  is exactly 60 minutes before now is not. When the last update failed the entity is
  not available, whatever the record holds.
\<close>

theorem available_iff_fresh:
  "(\<forall>r t. cd tx = Some r \<and> utc (get_default r (DataKey ''TIMESTAMP'') JNull) = Inr t \<longrightarrow>
      available nearest_double utc ok thr now cd tx
        = Inr (ok \<and> nearest_double (nearest_double (now - t) / 60) < thr))
   \<and> (\<forall>r. cd tx = Some r
          \<and> utc (get_default r (DataKey ''TIMESTAMP'') JNull) = Inr (now - 59 * 60) \<longrightarrow>
        available nearest_double utc True 60 now cd tx = Inr True)
   \<and> (\<forall>r. cd tx = Some r
          \<and> utc (get_default r (DataKey ''TIMESTAMP'') JNull) = Inr (now - 60 * 60) \<longrightarrow>
        available nearest_double utc True 60 now cd tx = Inr False)
   \<and> available nearest_double utc False thr now cd tx = Inr False"
proof -
  note ex = exact_on_quarters_nearest_double
  have q: "quarter 3540" "quarter 59" "quarter 3600" "quarter 60"
    by (simp_all add: quarter_def)
  have a: "available nearest_double utc True 60 now cd tx = Inr True"
    if "cd tx = Some r"
      "utc (get_default r (DataKey ''TIMESTAMP'') JNull) = Inr (now - 59 * 60)" for r
  proof -
    from ex q have "nearest_double 3540 = 3540" "nearest_double 59 = 59"
      by (simp_all add: exact_on_quartersD)
    then show ?thesis
      by (simp add: available_converted [of cd tx r utc "now - 59 * 60", OF that])
  qed
  have b: "available nearest_double utc True 60 now cd tx = Inr False"
    if "cd tx = Some r"
      "utc (get_default r (DataKey ''TIMESTAMP'') JNull) = Inr (now - 60 * 60)" for r
  proof -
    from ex q have "nearest_double 3600 = 3600" "nearest_double 60 = 60"
      by (simp_all add: exact_on_quartersD)
    then show ?thesis
      by (simp add: available_converted [of cd tx r utc "now - 60 * 60", OF that])
  qed
  have c: "available nearest_double utc False thr now cd tx = Inr False"
    by (simp add: available_def)
  from a b c available_converted [of cd tx _ utc _ nearest_double ok thr now]
  show ?thesis by blast
qed

theorem available_iff_fresh_witness:
  "available nearest_double (\<lambda>v. case v of JNum t \<Rightarrow> Inr t | _ \<Rightarrow> Inl TypeError) True 60 7200
     [JNum 1 \<mapsto> [DataKey ''TIMESTAMP'' \<mapsto> JNum 3660]] (JNum 1) = Inr True
   \<and> available nearest_double (\<lambda>v. case v of JNum t \<Rightarrow> Inr t | _ \<Rightarrow> Inl TypeError) True 60 7200
     [JNum 1 \<mapsto> [DataKey ''TIMESTAMP'' \<mapsto> JNum 3600]] (JNum 1) = Inr False"
proof -
  let ?utc = "\<lambda>v. case v of JNum t \<Rightarrow> Inr t | _ \<Rightarrow> Inl TypeError"
  have "\<forall>r. [JNum 1 \<mapsto> [DataKey ''TIMESTAMP'' \<mapsto> JNum 3660]] (JNum 1) = Some r
          \<and> ?utc (get_default r (DataKey ''TIMESTAMP'') JNull) = Inr (7200 - 59 * 60) \<longrightarrow>
        available nearest_double ?utc True 60 7200
          [JNum 1 \<mapsto> [DataKey ''TIMESTAMP'' \<mapsto> JNum 3660]] (JNum 1) = Inr True"
    using available_iff_fresh [of "[JNum 1 \<mapsto> [DataKey ''TIMESTAMP'' \<mapsto> JNum 3660]]" "JNum 1"
        ?utc True 60 7200]
    by blast
  then have a: "available nearest_double ?utc True 60 7200
          [JNum 1 \<mapsto> [DataKey ''TIMESTAMP'' \<mapsto> JNum 3660]] (JNum 1) = Inr True"
    by (simp add: get_default_def)
  have "\<forall>r. [JNum 1 \<mapsto> [DataKey ''TIMESTAMP'' \<mapsto> JNum 3600]] (JNum 1) = Some r
          \<and> ?utc (get_default r (DataKey ''TIMESTAMP'') JNull) = Inr (7200 - 60 * 60) \<longrightarrow>
        available nearest_double ?utc True 60 7200
          [JNum 1 \<mapsto> [DataKey ''TIMESTAMP'' \<mapsto> JNum 3600]] (JNum 1) = Inr False"
    using available_iff_fresh [of "[JNum 1 \<mapsto> [DataKey ''TIMESTAMP'' \<mapsto> JNum 3600]]" "JNum 1"
        ?utc True 60 7200]
    by blast
  then have b: "available nearest_double ?utc True 60 7200
          [JNum 1 \<mapsto> [DataKey ''TIMESTAMP'' \<mapsto> JNum 3600]] (JNum 1) = Inr False"
    by (simp add: get_default_def)
  from a b show ?thesis by simp
qed

text \<open>
  Claim C3 as stated fails twice: a record timestamped now is not available after a
  failed update; and for a record with no timestamp the conversion is called with
  \<open>None\<close>, where it raises, so that \<open>available\<close> raises instead of returning \<open>False\<close>.
  The conversion taken here is exact on numbers and raises \<open>TypeError\<close> otherwise, as
  the platform's does on the values used.
\<close>

theorem available_counterexample:
  "available nearest_double (\<lambda>v. case v of JNum t \<Rightarrow> Inr t | _ \<Rightarrow> Inl TypeError) False 60 3600
     [JNum 1 \<mapsto> [DataKey ''TIMESTAMP'' \<mapsto> JNum 3600]] (JNum 1) = Inr False
   \<and> available nearest_double (\<lambda>v. case v of JNum t \<Rightarrow> Inr t | _ \<Rightarrow> Inl TypeError) True 60 3600
     [JNum 1 \<mapsto> [DataKey ''TEMP_OUT'' \<mapsto> JNum 72]] (JNum 1) = Inl TypeError"
  by (simp add: available_def record_of_def get_default_def)

subsection \<open>What a rule changes\<close>

lemma frame_refl: "frame tx W out out"
  by (auto simp add: frame_def)

lemma frame_trans:
  assumes "frame tx W1 out out1" and "frame tx W2 out1 out2"
  shows "frame tx (W1 \<union> W2) out out2"
proof -
  have others: "\<forall>t. t \<noteq> tx \<longrightarrow> out2 t = out t"
    using assms by (simp add: frame_def)
  have none: "out tx = None \<longrightarrow> out2 tx = None"
    using assms by (simp add: frame_def)
  have some: "\<exists>r2. out2 tx = Some r2 \<and> dom r \<subseteq> dom r2 \<and> (\<forall>K. K \<notin> W1 \<union> W2 \<longrightarrow> r2 K = r K)"
    if "out tx = Some r" for r
  proof -
    from assms(1) that obtain r1 where
      r1: "out1 tx = Some r1" "dom r \<subseteq> dom r1" "\<forall>K. K \<notin> W1 \<longrightarrow> r1 K = r K"
      unfolding frame_def by blast
    from assms(2) r1(1) obtain r2 where
      r2: "out2 tx = Some r2" "dom r1 \<subseteq> dom r2" "\<forall>K. K \<notin> W2 \<longrightarrow> r2 K = r1 K"
      unfolding frame_def by blast
    from r1 r2 show ?thesis by auto
  qed
  from others none some show ?thesis unfolding frame_def by blast
qed

lemma frame_mono: "frame tx W out out' \<Longrightarrow> W \<subseteq> W' \<Longrightarrow> frame tx W' out out'"
  unfolding frame_def by (meson subsetD)

lemma assign_frame: "assign tx K v out = Inr out' \<Longrightarrow> frame tx {K} out out'"
  by (auto simp add: assign_def frame_def split: option.splits)

lemma assign_value:
  "assign tx K v out = Inr out' \<Longrightarrow> \<exists>r. out' tx = Some r \<and> r K = Some v"
  by (auto simp add: assign_def split: option.splits)

lemma exec_frame: "exec s tx st out = Inr out' \<Longrightarrow> frame tx (set (writes st)) out out'"
proof (cases st)
  case (DegreeDay KF KC f)
  assume e: "exec s tx st out = Inr out'"
  show ?thesis
  proof (cases "data0_get s f (JNum 0)")
    case (Inl a)
    with e DegreeDay show ?thesis by simp
  next
    case (Inr xx)
    show ?thesis
    proof (cases "xx = JNull")
      case True
      with e DegreeDay Inr show ?thesis by (simp add: frame_refl)
    next
      case False
      with e DegreeDay Inr obtain out1 y where
        a1: "assign tx KF xx out = Inr out1" and a2: "assign tx KC y out1 = Inr out'"
        by (auto split: sum.splits)
      from frame_trans [OF assign_frame [OF a1] assign_frame [OF a2]]
      show ?thesis using DegreeDay by (simp add: insert_commute)
    qed
  qed
qed (auto simp add: frame_refl dest: assign_frame split: sum.splits if_splits)

lemma run_frame:
  "run s tx sts out = Inr out' \<Longrightarrow> frame tx (set (concat (map writes sts))) out out'"
proof (induction sts arbitrary: out)
  case Nil
  then show ?case by (simp add: frame_refl)
next
  case (Cons st sts)
  from Cons.prems obtain out1 where
    e: "exec s tx st out = Inr out1" and r: "run s tx sts out1 = Inr out'"
    by (auto split: sum.splits)
  from frame_trans [OF exec_frame [OF e] Cons.IH [OF r]] show ?case by simp
qed

lemma run_append:
  "run s tx (xs @ ys) out =
     (case run s tx xs out of Inl e \<Rightarrow> Inl e | Inr out1 \<Rightarrow> run s tx ys out1)"
  by (induction xs arbitrary: out) (auto split: sum.splits)

lemma frame_dom: "frame tx W out out' \<Longrightarrow> dom out' = dom out"
proof -
  assume f: "frame tx W out out'"
  have "out' t = None \<longleftrightarrow> out t = None" for t
    using f unfolding frame_def by (cases "t = tx"; cases "out tx") fastforce+
  then show ?thesis by (auto simp add: dom_def)
qed

lemma setdefault_dom: "dom (setdefault tx out) = insert tx (dom out)"
  by (auto simp add: setdefault_def split: option.splits)

lemma setdefault_other: "t \<noteq> tx \<Longrightarrow> setdefault tx out t = out t"
  by (simp add: setdefault_def split: option.splits)

lemma setdefault_same:
  "setdefault tx out tx = Some (case out tx of None \<Rightarrow> Map.empty | Some r \<Rightarrow> r)"
  by (simp add: setdefault_def split: option.splits)

lemma resolve_target_dom:
  "resolve_target primary s tgt out = Inr (tx, out1) \<Longrightarrow> dom out \<subseteq> dom out1"
  by (cases tgt) (auto simp add: setdefault_def split: sum.splits option.splits)

lemma apply_rule_dom:
  "apply_rule primary s tgt sts out = Inr out' \<Longrightarrow> dom out \<subseteq> dom out'"
  unfolding apply_rule_def
  by (auto split: sum.splits dest!: run_frame frame_dom resolve_target_dom)

lemma process_rules_dom:
  "process_rules primary s rs out = Inr out' \<Longrightarrow> dom out \<subseteq> dom out'"
proof (induction rs arbitrary: out)
  case Nil
  then show ?case by simp
next
  case (Cons rl rs)
  obtain c tgt sts where rl: "rl = (c, tgt, sts)" by (cases rl)
  from Cons.prems rl obtain out1 where
    a: "(if c s then apply_rule primary s tgt sts out else Inr out) = Inr out1"
    and b: "process_rules primary s rs out1 = Inr out'"
    by (auto split: sum.splits)
  from a have "dom out \<subseteq> dom out1" by (auto split: if_splits dest: apply_rule_dom)
  with Cons.IH [OF b] show ?case by blast
qed

lemma process_sensors_dom:
  "process_sensors primary ss out = Inr out' \<Longrightarrow> dom out \<subseteq> dom out'"
proof (induction ss arbitrary: out)
  case Nil
  then show ?case by simp
next
  case (Cons s ss)
  from Cons.prems obtain out1 where
    a: "process_sensor primary s out = Inr out1"
    and b: "process_sensors primary ss out1 = Inr out'"
    by (auto split: sum.splits)
  from a have "dom out \<subseteq> dom out1" unfolding process_sensor_def by (rule process_rules_dom)
  with Cons.IH [OF b] show ?case by blast
qed

lemma process_sensors_append:
  "process_sensors primary (xs @ ys) out =
     (case process_sensors primary xs out of Inl e \<Rightarrow> Inl e
      | Inr out1 \<Rightarrow> process_sensors primary ys out1)"
  by (induction xs arbitrary: out) (auto split: sum.splits)

subsection \<open>Unrecognized sensor records\<close>

text \<open>The equations that evaluate \<open>_preprocess\<close> on a concrete payload.\<close>

lemmas eval_defs = preprocess_def modern_def legacy_def process_sensor_def mapping_rules_def
  apply_rule_def data0_def data0_subscript_def data0_get_def subscript_def get_default_def
  setdefault_def assign_def SENSOR_TYPE_VUE_AND_VANTAGE_PRO_def SENSOR_TYPE_AIRLINK_def
  py_truediv_def py_mul_float_def py_mul5_div9_def copy_indexed_def str_nat.simps
  rule_vue_10_def rule_vue_2_def rule_vue_23_def rule_leaf_soil_def rule_temp_hum_in_def
  rule_barometer_def rule_airlink_def mktime_parsedate_def upt_rec snapshot_field_def

lemma process_rules_skip:
  "\<forall>(c, tgt, sts) \<in> set rs. \<not> c s \<Longrightarrow> process_rules primary s rs out = Inr out"
  by (induction rs) auto

lemma unrecognized_process_sensor:
  "\<not> recognized s \<Longrightarrow> process_sensor primary s out = Inr out"
  unfolding process_sensor_def recognized_def
  by (rule process_rules_skip) (auto simp add: list_ex_iff)

lemma process_sensors_drop:
  assumes "\<not> recognized s"
  shows "process_sensors primary (xs @ s # ys) out = process_sensors primary (xs @ ys) out"
  using assms
  by (simp add: process_sensors_append unrecognized_process_sensor split: sum.splits)

lemma legacy_ignores_sensors:
  "legacy rfc822 (indata\<lparr>sensors := x\<rparr>) snap = legacy rfc822 indata snap"
  by (simp add: legacy_def Let_def cong: option.case_cong sum.case_cong)

text \<open>
  Claim C5. A sensor record whose \<open>(sensor_type, data_structure_type)\<close> pair matches
  none of the rules leaves \<open>outdata\<close> as it is and raises nothing, and \<open>_preprocess\<close>
  returns on the payload what it returns on the payload without that record.
\<close>

theorem unrecognized_skipped:
  assumes "\<not> recognized s"
  shows "process_sensor primary s out = Inr out
       \<and> (sensors indata = Some (xs @ s # ys) \<longrightarrow>
            preprocess rfc822 api primary indata
              = preprocess rfc822 api primary (indata\<lparr>sensors := Some (xs @ ys)\<rparr>))"
proof -
  have a: "process_sensor primary s out = Inr out"
    using assms by (rule unrecognized_process_sensor)
  have b: "preprocess rfc822 api primary indata
             = preprocess rfc822 api primary (indata\<lparr>sensors := Some (xs @ ys)\<rparr>)"
    if "sensors indata = Some (xs @ s # ys)"
    using that process_sensors_drop [OF assms]
    by (simp add: preprocess_def modern_def Let_def legacy_ignores_sensors
        cong: sum.case_cong if_cong)
  from a b show ?thesis by blast
qed

theorem unrecognized_skipped_witness:
  "preprocess (\<lambda>_. None) API_V2 (JNum 1)
     \<lparr>top = [''station_id_uuid'' \<mapsto> JStr ''u''], dco = None,
      sensors = Some [\<lparr>sensor_type = 504, data_structure_type = 99, lsid = None, data = []\<rparr>,
                      \<lparr>sensor_type = 365, data_structure_type = 21, lsid = None,
                        data = [[''temp_in'' \<mapsto> JNum 70, ''hum_in'' \<mapsto> JNum 40]]\<rparr>]\<rparr>
   = preprocess (\<lambda>_. None) API_V2 (JNum 1)
     \<lparr>top = [''station_id_uuid'' \<mapsto> JStr ''u''], dco = None,
      sensors = Some [\<lparr>sensor_type = 365, data_structure_type = 21, lsid = None,
                        data = [[''temp_in'' \<mapsto> JNum 70, ''hum_in'' \<mapsto> JNum 40]]\<rparr>]\<rparr>"
proof -
  have u: "\<not> recognized \<lparr>sensor_type = 504, data_structure_type = 99, lsid = None, data = []\<rparr>"
    by (simp add: recognized_def mapping_rules_def SENSOR_TYPE_VUE_AND_VANTAGE_PRO_def
        SENSOR_TYPE_AIRLINK_def)
  from unrecognized_skipped [OF u, of "JNum 1" Map.empty
      "\<lparr>top = [''station_id_uuid'' \<mapsto> JStr ''u''], dco = None,
      sensors = Some [\<lparr>sensor_type = 504, data_structure_type = 99, lsid = None, data = []\<rparr>,
                      \<lparr>sensor_type = 365, data_structure_type = 21, lsid = None,
                        data = [[''temp_in'' \<mapsto> JNum 70, ''hum_in'' \<mapsto> JNum 40]]\<rparr>]\<rparr>"
      "[]" "[\<lparr>sensor_type = 365, data_structure_type = 21, lsid = None,
                        data = [[''temp_in'' \<mapsto> JNum 70, ''hum_in'' \<mapsto> JNum 40]]\<rparr>]"
      "\<lambda>_. None" API_V2]
  show ?thesis by simp
qed

subsection \<open>The primary record and the UUID entry\<close>

lemma modern_result:
  assumes "modern primary indata snap0 = Inr snap"
  shows "primary \<in> dom (tx_records snap) \<and> uuid_entry snap = top indata ''station_id_uuid''
         \<and> uuid_entry snap \<noteq> None"
proof -
  from assms obtain u ss out1 where
    u: "top indata ''station_id_uuid'' = Some u" and
    p: "process_sensors primary ss (setdefault primary (tx_records snap0)) = Inr out1" and
    s: "snap = \<lparr>tx_records = out1, uuid_entry = Some u\<rparr>"
    by (auto simp add: modern_def subscript_def Let_def split: option.splits sum.splits)
  from process_sensors_dom [OF p] have "primary \<in> dom out1"
    by (auto simp add: setdefault_dom)
  with u s show ?thesis by simp
qed

text \<open>
  Claim C10. Whenever \<open>_preprocess\<close> returns on a modern-shape payload, the result has
  a record under the primary transmitter id and the UUID entry, which is the payload's
  \<open>station_id_uuid\<close>. When no sensor record of the payload is recognized, the record of
  the primary transmitter is there and empty.
\<close>

theorem primary_record_and_uuid:
  "(preprocess rfc822 API_V2 primary indata = Inr snap \<longrightarrow>
      primary \<in> dom (tx_records snap) \<and> uuid_entry snap = top indata ''station_id_uuid''
      \<and> uuid_entry snap \<noteq> None)
   \<and> (top indata ''station_id_uuid'' = Some u \<and> sensors indata = Some ss
        \<and> (\<forall>s \<in> set ss. \<not> recognized s) \<longrightarrow>
      preprocess rfc822 API_V2 primary indata
        = Inr \<lparr>tx_records = [primary \<mapsto> Map.empty], uuid_entry = Some u\<rparr>)"
proof -
  have a: "primary \<in> dom (tx_records snap) \<and> uuid_entry snap = top indata ''station_id_uuid''
      \<and> uuid_entry snap \<noteq> None"
    if "preprocess rfc822 API_V2 primary indata = Inr snap"
    using that by (auto simp add: preprocess_def dest: modern_result)
  have skip: "(\<forall>s \<in> set ss. \<not> recognized s) \<Longrightarrow> process_sensors primary ss out = Inr out" for out
    by (induction ss) (auto simp add: unrecognized_process_sensor)
  have b: "preprocess rfc822 API_V2 primary indata
        = Inr \<lparr>tx_records = [primary \<mapsto> Map.empty], uuid_entry = Some u\<rparr>"
    if "top indata ''station_id_uuid'' = Some u" "sensors indata = Some ss"
       "\<forall>s \<in> set ss. \<not> recognized s"
    using that skip by (simp add: preprocess_def modern_def subscript_def setdefault_def)
  from a b show ?thesis by blast
qed

theorem primary_record_and_uuid_witness:
  "preprocess (\<lambda>_. None) API_V2 (JNum 1)
     \<lparr>top = [''station_id_uuid'' \<mapsto> JStr ''u''], dco = None,
      sensors = Some [\<lparr>sensor_type = 504, data_structure_type = 99, lsid = None, data = []\<rparr>]\<rparr>
   = Inr \<lparr>tx_records = [JNum 1 \<mapsto> Map.empty], uuid_entry = Some (JStr ''u'')\<rparr>
   \<and> JNum 1 \<in> dom (tx_records \<lparr>tx_records = [JNum 1 \<mapsto> Map.empty], uuid_entry = Some (JStr ''u'')\<rparr>)"
proof -
  let ?p = "\<lparr>top = [''station_id_uuid'' \<mapsto> JStr ''u''], dco = None,
      sensors = Some [\<lparr>sensor_type = 504, data_structure_type = 99, lsid = None, data = []\<rparr>]\<rparr>"
  note th = primary_record_and_uuid [of "\<lambda>_. None" "JNum 1" ?p
      "\<lparr>tx_records = [JNum 1 \<mapsto> Map.empty], uuid_entry = Some (JStr ''u'')\<rparr>" "JStr ''u''"
      "[\<lparr>sensor_type = 504, data_structure_type = 99, lsid = None, data = []\<rparr>]"]
  have u: "\<forall>s \<in> set [\<lparr>sensor_type = 504, data_structure_type = 99, lsid = None, data = []\<rparr>].
      \<not> recognized s"
    by (simp add: recognized_def mapping_rules_def SENSOR_TYPE_VUE_AND_VANTAGE_PRO_def
        SENSOR_TYPE_AIRLINK_def)
  from th u have e: "preprocess (\<lambda>_. None) API_V2 (JNum 1) ?p
      = Inr \<lparr>tx_records = [JNum 1 \<mapsto> Map.empty], uuid_entry = Some (JStr ''u'')\<rparr>"
    by simp
  with th show ?thesis by blast
qed

subsection \<open>The legacy shape\<close>

lemma legacy_result:
  assumes "legacy rfc822 indata \<lparr>tx_records = Map.empty, uuid_entry = None\<rparr> = Inr snap"
  shows "dom (tx_records snap) = {JNum 1}
       \<and> (\<exists>t n. top indata ''observation_time_rfc822'' = Some (JStr t) \<and> rfc822 t = Some n
            \<and> snapshot_field (Inr snap) (JNum 1) (DataKey ''TIMESTAMP'') = Some (JNum (of_int n)))"
  using assms
  by (auto simp add: legacy_def Let_def subscript_def setdefault_def mktime_parsedate_def
      snapshot_field_def split: option.splits sum.splits jv.splits if_splits)

lemma legacy_valid:
  assumes "dco indata = Some d" "top indata ''observation_time_rfc822'' = Some (JStr t)"
    "rfc822 t = Some n"
  shows "\<exists>snap. legacy rfc822 indata \<lparr>tx_records = Map.empty, uuid_entry = None\<rparr> = Inr snap"
  using assms by (simp add: legacy_def Let_def subscript_def mktime_parsedate_def)

text \<open>
  Claim C8. On a legacy-shape payload that has the sub-object
  \<open>davis_current_observation\<close> and an \<open>observation_time_rfc822\<close> string that parses,
  \<open>_preprocess\<close> returns, the only transmitter id of the result is 1, and the timestamp
  of that record is the parsed epoch seconds. Every result of \<open>_preprocess\<close> on a
  legacy-shape payload is of this kind.
\<close>

theorem legacy_single_transmitter:
  "(dco indata = Some d \<and> top indata ''observation_time_rfc822'' = Some (JStr t)
      \<and> rfc822 t = Some n \<longrightarrow>
      (\<exists>snap. preprocess rfc822 API_V1 primary indata = Inr snap
         \<and> dom (tx_records snap) = {JNum 1}
         \<and> snapshot_field (Inr snap) (JNum 1) (DataKey ''TIMESTAMP'') = Some (JNum (of_int n))))
   \<and> (preprocess rfc822 API_V1 primary indata = Inr snap' \<longrightarrow>
        dom (tx_records snap') = {JNum 1}
        \<and> (\<exists>t n. top indata ''observation_time_rfc822'' = Some (JStr t) \<and> rfc822 t = Some n
             \<and> snapshot_field (Inr snap') (JNum 1) (DataKey ''TIMESTAMP'') = Some (JNum (of_int n))))"
proof -
  have p: "preprocess rfc822 API_V1 primary indata
             = legacy rfc822 indata \<lparr>tx_records = Map.empty, uuid_entry = None\<rparr>"
    by (simp add: preprocess_def split: sum.splits)
  have b: "dom (tx_records snap') = {JNum 1}
        \<and> (\<exists>t n. top indata ''observation_time_rfc822'' = Some (JStr t) \<and> rfc822 t = Some n
             \<and> snapshot_field (Inr snap') (JNum 1) (DataKey ''TIMESTAMP'') = Some (JNum (of_int n)))"
    if "preprocess rfc822 API_V1 primary indata = Inr snap'"
    using that unfolding p by (rule legacy_result)
  have a: "\<exists>snap. preprocess rfc822 API_V1 primary indata = Inr snap
         \<and> dom (tx_records snap) = {JNum 1}
         \<and> snapshot_field (Inr snap) (JNum 1) (DataKey ''TIMESTAMP'') = Some (JNum (of_int n))"
    if v: "dco indata = Some d" "top indata ''observation_time_rfc822'' = Some (JStr t)"
      "rfc822 t = Some n"
  proof -
    from v have "\<exists>snap. legacy rfc822 indata \<lparr>tx_records = Map.empty, uuid_entry = None\<rparr> = Inr snap"
      by (rule legacy_valid)
    then obtain snap where
      s: "legacy rfc822 indata \<lparr>tx_records = Map.empty, uuid_entry = None\<rparr> = Inr snap" ..
    from legacy_result [OF s] v(2,3) s show ?thesis unfolding p by auto
  qed
  from a b show ?thesis by blast
qed

theorem legacy_single_transmitter_witness:
  "snapshot_field
     (preprocess (\<lambda>t. if t = ''Wed, 01 Jan 2020 00:00:00 +0000'' then Some 1577836800 else None)
        API_V1 (JNum 1)
        \<lparr>top = [''observation_time_rfc822'' \<mapsto> JStr ''Wed, 01 Jan 2020 00:00:00 +0000'',
                ''temp_f'' \<mapsto> JStr ''41.0''],
         dco = Some [''DID'' \<mapsto> JStr ''001D0A00'', ''station_name'' \<mapsto> JStr ''Home''],
         sensors = None\<rparr>)
     (JNum 1) (DataKey ''TIMESTAMP'') = Some (JNum 1577836800)"
proof -
  let ?rfc = "\<lambda>t. if t = ''Wed, 01 Jan 2020 00:00:00 +0000'' then Some (1577836800::int) else None"
  let ?p = "\<lparr>top = [''observation_time_rfc822'' \<mapsto> JStr ''Wed, 01 Jan 2020 00:00:00 +0000'',
                ''temp_f'' \<mapsto> JStr ''41.0''],
         dco = Some [''DID'' \<mapsto> JStr ''001D0A00'', ''station_name'' \<mapsto> JStr ''Home''],
         sensors = None\<rparr>"
  have h: "dco ?p = Some [''DID'' \<mapsto> JStr ''001D0A00'', ''station_name'' \<mapsto> JStr ''Home'']
      \<and> top ?p ''observation_time_rfc822'' = Some (JStr ''Wed, 01 Jan 2020 00:00:00 +0000'')
      \<and> ?rfc ''Wed, 01 Jan 2020 00:00:00 +0000'' = Some 1577836800"
    by simp
  from legacy_single_transmitter [of ?p _ _ ?rfc 1577836800 "JNum 1"] h
  obtain snap where "preprocess ?rfc API_V1 (JNum 1) ?p = Inr snap"
    "snapshot_field (Inr snap) (JNum 1) (DataKey ''TIMESTAMP'') = Some (JNum (of_int 1577836800))"
    by blast
  then show ?thesis by simp
qed

subsection \<open>The last write of a key\<close>

lemma exec_copy_value:
  assumes "exec s tx (Copy K f) out = Inr out'" "data0 s = Inr d"
  shows "\<exists>r. out' tx = Some r \<and> r K = d f \<and> d f \<noteq> None"
  using assms
  by (auto simp add: data0_subscript_def subscript_def assign_def split: option.splits sum.splits)

lemma frame_keeps:
  assumes "frame tx W out out'" "out tx = Some r" "K \<notin> W"
  shows "\<exists>r'. out' tx = Some r' \<and> r' K = r K \<and> dom r \<subseteq> dom r'"
  using assms unfolding frame_def by blast

lemma run_last_write:
  assumes run: "run s tx sts out = Inr out'"
    and mem: "st \<in> set sts"
    and uniq: "\<forall>st' \<in> set sts. st' = st \<or> K \<notin> set (writes st')"
    and eff: "\<And>ox ox'. exec s tx st ox = Inr ox' \<Longrightarrow> \<exists>r. ox' tx = Some r \<and> r K = v"
  shows "\<exists>r. out' tx = Some r \<and> r K = v"
proof -
  from split_list_last [OF mem] obtain a b where ab: "sts = a @ st # b" "st \<notin> set b" by blast
  from run ab(1) obtain o1 o2 where
    e: "exec s tx st o1 = Inr o2" and rb: "run s tx b o2 = Inr out'"
    by (auto simp add: run_append split: sum.splits)
  from eff [OF e] obtain r2 where r2: "o2 tx = Some r2" "r2 K = v" by blast
  have "K \<notin> set (concat (map writes b))"
    using uniq ab by auto
  from frame_keeps [OF run_frame [OF rb] r2(1) this] r2(2) show ?thesis by auto
qed

lemma distinct_writes_unique:
  "distinct (concat (map writes sts)) \<Longrightarrow> st \<in> set sts \<Longrightarrow> K \<in> set (writes st) \<Longrightarrow>
   \<forall>st' \<in> set sts. st' = st \<or> K \<notin> set (writes st')"
  by (induction sts) auto


subsection \<open>Facts about the rule tables\<close>

lemma rule_vue_10_distinct: "distinct (concat (map writes rule_vue_10))"
  by (simp add: rule_vue_10_def)

lemma rule_vue_2_distinct: "distinct (concat (map writes rule_vue_2))"
  by (simp add: rule_vue_2_def copy_indexed_def upt_rec)

lemma rule_vue_23_distinct: "distinct (concat (map writes rule_vue_23))"
  by (simp add: rule_vue_23_def)

lemma rule_leaf_soil_distinct: "distinct (concat (map writes rule_leaf_soil))"
  by (simp add: rule_leaf_soil_def copy_indexed_def upt_rec)

lemma rule_airlink_distinct: "distinct (concat (map writes rule_airlink))"
  by (simp add: rule_airlink_def)

lemma rule_temp_hum_in_distinct: "distinct (concat (map writes rule_temp_hum_in))"
  by (simp add: rule_temp_hum_in_def)

lemma rule_barometer_distinct: "distinct (concat (map writes rule_barometer))"
  by (simp add: rule_barometer_def)

lemma mapping_rules_cases:
  assumes "(c, tgt, sts) \<in> set mapping_rules"
  shows "(tgt, sts) \<in> {(TxRequired, rule_vue_10), (TxDefault1, rule_vue_2), (TxRequired, rule_vue_23),
           (TxRequired, rule_leaf_soil), (Primary, rule_temp_hum_in), (Primary, rule_barometer),
           (Lsid, rule_airlink)}"
  using assms unfolding mapping_rules_def by auto

lemma mapping_rules_distinct:
  "(c, tgt, sts) \<in> set mapping_rules \<Longrightarrow> distinct (concat (map writes sts))"
  using rule_vue_10_distinct rule_vue_2_distinct rule_vue_23_distinct rule_leaf_soil_distinct
    rule_airlink_distinct rule_temp_hum_in_distinct rule_barometer_distinct
  by (auto dest!: mapping_rules_cases)

lemma mapping_rules_timestamp:
  assumes "(c, tgt, sts) \<in> set mapping_rules" "tgt \<noteq> Primary"
  shows "Copy (DataKey ''TIMESTAMP'') ''ts'' \<in> set sts"
proof -
  have "Copy (DataKey ''TIMESTAMP'') ''ts'' \<in> set rule_vue_10" by (simp add: rule_vue_10_def)
  moreover have "Copy (DataKey ''TIMESTAMP'') ''ts'' \<in> set rule_vue_2" by (simp add: rule_vue_2_def)
  moreover have "Copy (DataKey ''TIMESTAMP'') ''ts'' \<in> set rule_vue_23" by (simp add: rule_vue_23_def)
  moreover have "Copy (DataKey ''TIMESTAMP'') ''ts'' \<in> set rule_leaf_soil" by (simp add: rule_leaf_soil_def)
  moreover have "Copy (DataKey ''TIMESTAMP'') ''ts'' \<in> set rule_airlink" by (simp add: rule_airlink_def)
  ultimately show ?thesis using mapping_rules_cases [OF assms(1)] assms(2) by auto
qed

lemma mapping_rules_satellite:
  assumes "(c, tgt, sts) \<in> set mapping_rules" "tgt = Primary"
  shows "set (concat (map writes sts)) \<subseteq> satellite_keys"
proof -
  have "set (concat (map writes rule_temp_hum_in)) \<subseteq> satellite_keys"
    by (simp add: rule_temp_hum_in_def satellite_keys_def)
  moreover have "set (concat (map writes rule_barometer)) \<subseteq> satellite_keys"
    by (simp add: rule_barometer_def satellite_keys_def)
  ultimately show ?thesis using mapping_rules_cases [OF assms(1)] assms(2) by auto
qed

subsection \<open>At most one rule fires\<close>

lemma sum_case_id: "(case x of Inl e \<Rightarrow> Inl e | Inr y \<Rightarrow> Inr y) = x"
  by (cases x) simp_all

lemma dispatch_10:
  "data_structure_type s = 10 \<Longrightarrow>
   process_sensor primary s out =
     (if sensor_type s \<in> set SENSOR_TYPE_VUE_AND_VANTAGE_PRO \<or> sensor_type s \<in> set [55]
      then apply_rule primary s TxRequired rule_vue_10 out else Inr out)"
  by (simp add: process_sensor_def mapping_rules_def sum_case_id cong: sum.case_cong)

lemma dispatch_2:
  "data_structure_type s = 2 \<Longrightarrow>
   process_sensor primary s out =
     (if sensor_type s \<in> set SENSOR_TYPE_VUE_AND_VANTAGE_PRO
      then apply_rule primary s TxDefault1 rule_vue_2 out else Inr out)"
  by (simp add: process_sensor_def mapping_rules_def sum_case_id cong: sum.case_cong)

lemma dispatch_23:
  "data_structure_type s = 23 \<Longrightarrow>
   process_sensor primary s out =
     (if sensor_type s \<in> set SENSOR_TYPE_VUE_AND_VANTAGE_PRO \<or> sensor_type s \<in> set [55]
      then apply_rule primary s TxRequired rule_vue_23 out else Inr out)"
  by (simp add: process_sensor_def mapping_rules_def sum_case_id cong: sum.case_cong)

lemma dispatch_56_12:
  "sensor_type s = 56 \<Longrightarrow> data_structure_type s = 12 \<Longrightarrow>
   process_sensor primary s out = apply_rule primary s TxRequired rule_leaf_soil out"
  by (simp add: process_sensor_def mapping_rules_def sum_case_id cong: sum.case_cong)

lemma dispatch_25:
  "data_structure_type s = 25 \<Longrightarrow>
   process_sensor primary s out =
     (if sensor_type s = 56 then apply_rule primary s TxRequired rule_leaf_soil out else Inr out)"
  by (simp add: process_sensor_def mapping_rules_def sum_case_id cong: sum.case_cong)

lemma dispatch_21:
  "data_structure_type s = 21 \<Longrightarrow>
   process_sensor primary s out =
     (if sensor_type s = 365 then apply_rule primary s Primary rule_temp_hum_in out else Inr out)"
  by (simp add: process_sensor_def mapping_rules_def sum_case_id cong: sum.case_cong)

lemma dispatch_243_12:
  "sensor_type s = 243 \<Longrightarrow> data_structure_type s = 12 \<Longrightarrow>
   process_sensor primary s out = apply_rule primary s Primary rule_temp_hum_in out"
  by (simp add: process_sensor_def mapping_rules_def sum_case_id cong: sum.case_cong)

lemma dispatch_242_12:
  "sensor_type s = 242 \<Longrightarrow> data_structure_type s = 12 \<Longrightarrow>
   process_sensor primary s out = apply_rule primary s Primary rule_barometer out"
  by (simp add: process_sensor_def mapping_rules_def sum_case_id cong: sum.case_cong)

lemma dispatch_19:
  "data_structure_type s = 19 \<Longrightarrow>
   process_sensor primary s out =
     (if sensor_type s = 242 then apply_rule primary s Primary rule_barometer out else Inr out)"
  by (simp add: process_sensor_def mapping_rules_def sum_case_id cong: sum.case_cong)

lemma dispatch_16:
  "data_structure_type s = 16 \<Longrightarrow>
   process_sensor primary s out =
     (if sensor_type s \<in> set SENSOR_TYPE_AIRLINK
      then apply_rule primary s Lsid rule_airlink out else Inr out)"
  by (simp add: process_sensor_def mapping_rules_def sum_case_id cong: sum.case_cong)

lemma process_sensor_unique:
  "(c, tgt, sts) \<in> set mapping_rules \<Longrightarrow> c s \<Longrightarrow>
   process_sensor primary s out = apply_rule primary s tgt sts out"
  unfolding mapping_rules_def
  by (auto simp add: dispatch_10 dispatch_2 dispatch_23 dispatch_56_12 dispatch_25 dispatch_21
      dispatch_243_12 dispatch_242_12 dispatch_19 dispatch_16)

subsection \<open>A missing required field\<close>

lemma data0_subscript_missing:
  "\<not> data0_has s f \<Longrightarrow> \<exists>e. data0_subscript s f = Inl e"
  by (auto simp add: data0_has_def data0_subscript_def data0_def subscript_def split: list.splits)

lemma exec_missing:
  "f \<in> set (stmt_required st) \<Longrightarrow> \<not> data0_has s f \<Longrightarrow> \<exists>e. exec s tx st out = Inl e"
  by (cases st) (auto dest!: data0_subscript_missing)

lemma run_missing:
  "st \<in> set sts \<Longrightarrow> f \<in> set (stmt_required st) \<Longrightarrow> \<not> data0_has s f \<Longrightarrow>
   \<exists>e. run s tx sts out = Inl e"
proof (induction sts arbitrary: out)
  case Nil
  then show ?case by simp
next
  case (Cons a sts)
  show ?case
  proof (cases "exec s tx a out")
    case (Inl e)
    then show ?thesis by simp
  next
    case (Inr out1)
    with Cons.prems exec_missing [of f a s tx out] have "st \<in> set sts" by auto
    from Cons.IH [OF this Cons.prems(2,3)] Inr show ?thesis by simp
  qed
qed

lemma apply_rule_missing:
  assumes "f \<in> set (target_required tgt @ concat (map stmt_required sts))" "\<not> data0_has s f"
  shows "\<exists>e. apply_rule primary s tgt sts out = Inl e"
proof (cases "resolve_target primary s tgt out")
  case (Inl e)
  then show ?thesis by (simp add: apply_rule_def)
next
  case (Inr p)
  obtain tx out1 where p: "p = (tx, out1)" by (cases p)
  have "f \<notin> set (target_required tgt)"
  proof
    assume "f \<in> set (target_required tgt)"
    then have "tgt = TxRequired" "f = ''tx_id''" by (cases tgt; simp)+
    with Inr data0_subscript_missing [OF assms(2)] show False by auto
  qed
  with assms(1) obtain st where "st \<in> set sts" "f \<in> set (stmt_required st)" by auto
  from run_missing [OF this assms(2)] Inr p show ?thesis by (simp add: apply_rule_def)
qed

lemma process_rules_missing:
  assumes "(c, tgt, sts) \<in> set rs" "c s"
    "f \<in> set (target_required tgt @ concat (map stmt_required sts))" "\<not> data0_has s f"
  shows "\<exists>e. process_rules primary s rs out = Inl e"
  using assms(1)
proof (induction rs arbitrary: out)
  case Nil
  then show ?case by simp
next
  case (Cons rl rs)
  obtain c' tgt' sts' where rl: "rl = (c', tgt', sts')" by (cases rl)
  show ?case
  proof (cases "if c' s then apply_rule primary s tgt' sts' out else Inr out")
    case (Inl e)
    with rl show ?thesis by simp
  next
    case (Inr out1)
    have "rl \<noteq> (c, tgt, sts)"
    proof
      assume "rl = (c, tgt, sts)"
      with rl Inr assms(2) have "apply_rule primary s tgt sts out = Inr out1" by simp
      with apply_rule_missing [OF assms(3,4), of primary out] show False by auto
    qed
    with Cons.prems have "(c, tgt, sts) \<in> set rs" by simp
    from Cons.IH [OF this] rl Inr show ?thesis by simp
  qed
qed

lemma missing_required_fails:
  assumes "missing_required s"
  shows "\<exists>e. process_sensor primary s out = Inl e"
proof -
  from assms obtain f where f: "f \<in> set (required_fields s)" "\<not> data0_has s f"
    by (auto simp add: missing_required_def list_ex_iff)
  from f(1) obtain c tgt sts where
    r: "(c, tgt, sts) \<in> set mapping_rules" "c s"
       "f \<in> set (target_required tgt @ concat (map stmt_required sts))"
    by (auto simp add: required_fields_def split: if_splits)
  from process_rules_missing [OF r f(2)] show ?thesis by (simp add: process_sensor_def)
qed

lemma process_sensors_fails:
  assumes "\<And>out. \<exists>e. process_sensor primary s out = Inl e"
  shows "\<exists>e. process_sensors primary (xs @ s # ys) out = Inl e"
proof (cases "process_sensors primary xs out")
  case (Inl e)
  then show ?thesis by (simp add: process_sensors_append)
next
  case (Inr out1)
  from assms [of out1] obtain e where "process_sensor primary s out1 = Inl e" ..
  with Inr show ?thesis by (simp add: process_sensors_append)
qed

text \<open>Which exception a line, a rule and the loop body raise.\<close>

lemma exec_error:
  assumes "exec s tx st out = Inl e" "out tx \<noteq> None"
  shows "(e = IndexError \<and> data s = [])
       \<or> (\<exists>f\<in>set (stmt_required st). \<not> data0_has s f \<and> e = KeyError f)
       \<or> (e = TypeError \<and> (\<exists>d ds f t. data s = d # ds \<and> d f = Some (JStr t)))"
proof (cases st)
  case SetSensorType
  with assms show ?thesis by (auto simp add: assign_def)
next
  case SetDataStructure
  with assms show ?thesis by (auto simp add: assign_def)
next
  case (Copy K f)
  with assms show ?thesis
    by (auto simp add: assign_def data0_subscript_def data0_def subscript_def data0_has_def
        split: list.splits option.splits sum.splits)
next
  case (Get K f dflt)
  with assms show ?thesis
    by (auto simp add: assign_def data0_get_def data0_def split: list.splits)
next
  case (Coalesce K f dflt z)
  with assms show ?thesis
    by (auto simp add: assign_def data0_get_def data0_def split: list.splits)
next
  case (IfNotNone K f dflt)
  with assms show ?thesis
    by (auto simp add: assign_def data0_get_def data0_def split: list.splits if_splits)
next
  case BarTrend1000
  with assms show ?thesis
    by (auto simp add: assign_def data0_get_def data0_def get_default_def py_truediv_def
        split: list.splits if_splits option.splits jv.splits)
next
  case SolarEnergy
  with assms show ?thesis
    by (auto simp add: assign_def data0_get_def data0_def get_default_def py_mul_float_def
        split: list.splits if_splits option.splits jv.splits)
next
  case (DegreeDay KF KC f)
  with assms show ?thesis
    by (auto simp add: assign_def data0_get_def data0_def get_default_def py_mul5_div9_def
        split: list.splits if_splits option.splits jv.splits)
qed

lemma run_error:
  assumes "run s tx sts out = Inl e" "out tx \<noteq> None"
  shows "(e = IndexError \<and> data s = [])
       \<or> (\<exists>f\<in>set (concat (map stmt_required sts)). \<not> data0_has s f \<and> e = KeyError f)
       \<or> (e = TypeError \<and> (\<exists>d ds f t. data s = d # ds \<and> d f = Some (JStr t)))"
  using assms
proof (induction sts arbitrary: out)
  case Nil
  then show ?case by simp
next
  case (Cons st sts)
  show ?case
  proof (cases "exec s tx st out")
    case (Inl e')
    with Cons.prems(1) have "e' = e" by simp
    with Inl exec_error [of s tx st out e] Cons.prems(2) show ?thesis by auto
  next
    case (Inr out1)
    from exec_frame [OF Inr] have "dom out1 = dom out" by (rule frame_dom)
    with Cons.prems(2) have "out1 tx \<noteq> None" by (auto simp add: dom_def)
    moreover from Inr Cons.prems(1) have "run s tx sts out1 = Inl e" by simp
    ultimately show ?thesis using Cons.IH [of out1] by auto
  qed
qed

lemma apply_rule_error:
  assumes "apply_rule primary s tgt sts out = Inl e" "out primary \<noteq> None"
  shows "(e = IndexError \<and> data s = [])
       \<or> (\<exists>f\<in>set (target_required tgt @ concat (map stmt_required sts)).
             \<not> data0_has s f \<and> e = KeyError f)
       \<or> (e = TypeError \<and> (\<exists>d ds f t. data s = d # ds \<and> d f = Some (JStr t)))
       \<or> (e = KeyError ''lsid'' \<and> lsid s = None)"
proof (cases "resolve_target primary s tgt out")
  case (Inl e')
  with assms(1) have "e' = e" by (simp add: apply_rule_def)
  with Inl show ?thesis
    by (cases tgt)
      (auto simp add: data0_subscript_def data0_get_def data0_def subscript_def data0_has_def
        split: list.splits option.splits sum.splits)
next
  case (Inr p)
  obtain tx out1 where p: "p = (tx, out1)" by (cases p)
  from Inr p assms(2) have "out1 tx \<noteq> None"
    by (cases tgt) (auto simp add: setdefault_def split: sum.splits option.splits)
  moreover from Inr p assms(1) have "run s tx sts out1 = Inl e" by (simp add: apply_rule_def)
  ultimately show ?thesis using run_error [of s tx sts out1 e] by auto
qed

lemma process_sensor_error:
  assumes "process_sensor primary s out = Inl e" "out primary \<noteq> None"
  shows "(e = IndexError \<and> data s = [])
       \<or> (\<exists>f\<in>set (required_fields s). \<not> data0_has s f \<and> e = KeyError f)
       \<or> (e = TypeError \<and> (\<exists>d ds f t. data s = d # ds \<and> d f = Some (JStr t)))
       \<or> (e = KeyError ''lsid'' \<and> lsid s = None)"
proof (cases "recognized s")
  case False
  with assms(1) show ?thesis by (simp add: unrecognized_process_sensor)
next
  case True
  then obtain c tgt sts where r: "(c, tgt, sts) \<in> set mapping_rules" "c s"
    by (auto simp add: recognized_def list_ex_iff)
  have sub: "f \<in> set (required_fields s)"
    if "f \<in> set (target_required tgt @ concat (map stmt_required sts))" for f
  proof -
    let ?F = "\<lambda>(c, tgt, sts).
                if c s then target_required tgt @ concat (map stmt_required sts) else []"
    from r(2) have "?F (c, tgt, sts) = target_required tgt @ concat (map stmt_required sts)"
      by simp
    with that have "f \<in> set (?F (c, tgt, sts))" by simp
    with r(1) have "\<exists>x\<in>set mapping_rules. f \<in> set (?F x)" by (rule rev_bexI)
    then show ?thesis by (simp add: required_fields_def)
  qed
  from assms(1) have "apply_rule primary s tgt sts out = Inl e"
    by (simp add: process_sensor_unique [OF r])
  from apply_rule_error [OF this assms(2)] show ?thesis
  proof (elim disjE)
    assume "\<exists>f\<in>set (target_required tgt @ concat (map stmt_required sts)).
             \<not> data0_has s f \<and> e = KeyError f"
    then obtain f where "f \<in> set (target_required tgt @ concat (map stmt_required sts))"
      "\<not> data0_has s f" "e = KeyError f" by blast
    with sub [of f] show ?thesis by blast
  qed simp_all
qed

text \<open>
  Claim C1, as the code has it. A sensor record of a recognized pair that lacks a field
  its rule reads with a subscript makes the loop body raise, and with such a record
  anywhere in the payload \<open>_preprocess\<close> raises: it returns no snapshot, whatever the
  other sensor records are. When the records before it pass, the exception of
  \<open>_preprocess\<close> is the one the loop body raises on that record: \<open>KeyError\<close> for a
  required field that is missing; or \<open>IndexError\<close>, when the \<open>data\<close> array of the record
  is empty; or \<open>TypeError\<close>, when a field of the record holds a string and a scale
  transform of the rule meets it before the missing field is read; or \<open>KeyError\<close> for
  \<open>lsid\<close>, when the record has none.
\<close>

theorem malformed_record_aborts:
  assumes "missing_required s"
  shows "(\<exists>e. process_sensor primary s out = Inl e)
       \<and> (sensors indata = Some (xs @ s # ys) \<longrightarrow>
            (\<exists>e. preprocess rfc822 API_V2 primary indata = Inl e))
       \<and> (\<forall>u out1. top indata ''station_id_uuid'' = Some u
              \<and> sensors indata = Some (xs @ s # ys)
              \<and> process_sensors primary xs (setdefault primary Map.empty) = Inr out1 \<longrightarrow>
            (\<exists>e. preprocess rfc822 API_V2 primary indata = Inl e
                \<and> process_sensor primary s out1 = Inl e
                \<and> ((e = IndexError \<and> data s = [])
                   \<or> (\<exists>f\<in>set (required_fields s). \<not> data0_has s f \<and> e = KeyError f)
                   \<or> (e = TypeError \<and> (\<exists>d ds f t. data s = d # ds \<and> d f = Some (JStr t)))
                   \<or> (e = KeyError ''lsid'' \<and> lsid s = None))))"
proof -
  have a: "\<exists>e. process_sensor primary s out = Inl e" for out
    using assms by (rule missing_required_fails)
  have b: "\<exists>e. preprocess rfc822 API_V2 primary indata = Inl e"
    if "sensors indata = Some (xs @ s # ys)"
  proof (cases "subscript (top indata) ''station_id_uuid''")
    case (Inl e)
    then show ?thesis by (simp add: preprocess_def modern_def)
  next
    case (Inr u)
    from process_sensors_fails [of primary s xs ys "setdefault primary Map.empty"] a
    obtain e where "process_sensors primary (xs @ s # ys) (setdefault primary Map.empty) = Inl e"
      by blast
    with Inr that show ?thesis by (simp add: preprocess_def modern_def)
  qed
  have c: "\<exists>e. preprocess rfc822 API_V2 primary indata = Inl e
                \<and> process_sensor primary s out1 = Inl e
                \<and> ((e = IndexError \<and> data s = [])
                   \<or> (\<exists>f\<in>set (required_fields s). \<not> data0_has s f \<and> e = KeyError f)
                   \<or> (e = TypeError \<and> (\<exists>d ds f t. data s = d # ds \<and> d f = Some (JStr t)))
                   \<or> (e = KeyError ''lsid'' \<and> lsid s = None))"
    if u: "top indata ''station_id_uuid'' = Some u"
      and ss: "sensors indata = Some (xs @ s # ys)"
      and xs: "process_sensors primary xs (setdefault primary Map.empty) = Inr out1"
    for u out1
  proof -
    from a [of out1] obtain e where e: "process_sensor primary s out1 = Inl e" ..
    from process_sensors_dom [OF xs] have "out1 primary \<noteq> None"
      by (auto simp add: setdefault_dom)
    note cls = process_sensor_error [OF e this]
    from xs e have "process_sensors primary (xs @ s # ys) (setdefault primary Map.empty) = Inl e"
      by (simp add: process_sensors_append)
    with u ss have p: "preprocess rfc822 API_V2 primary indata = Inl e"
      by (simp add: preprocess_def modern_def subscript_def)
    show ?thesis by (rule exI [of _ e], intro conjI, rule p, rule e, rule cls)
  qed
  show ?thesis
  proof (intro conjI allI impI)
    show "\<exists>e. process_sensor primary s out = Inl e" by (rule a)
  next
    assume "sensors indata = Some (xs @ s # ys)"
    then show "\<exists>e. preprocess rfc822 API_V2 primary indata = Inl e" by (rule b)
  next
    fix u out1
    assume "top indata ''station_id_uuid'' = Some u
              \<and> sensors indata = Some (xs @ s # ys)
              \<and> process_sensors primary xs (setdefault primary Map.empty) = Inr out1"
    then show "\<exists>e. preprocess rfc822 API_V2 primary indata = Inl e
                \<and> process_sensor primary s out1 = Inl e
                \<and> ((e = IndexError \<and> data s = [])
                   \<or> (\<exists>f\<in>set (required_fields s). \<not> data0_has s f \<and> e = KeyError f)
                   \<or> (e = TypeError \<and> (\<exists>d ds f t. data s = d # ds \<and> d f = Some (JStr t)))
                   \<or> (e = KeyError ''lsid'' \<and> lsid s = None))"
      by (elim conjE) (rule c; assumption)
  qed
qed

theorem malformed_record_aborts_witness:
  "preprocess (\<lambda>_. None) API_V2 (JNum 1)
     \<lparr>top = [''station_id_uuid'' \<mapsto> JStr ''u''], dco = None,
      sensors = Some [\<lparr>sensor_type = 365, data_structure_type = 21, lsid = None,
                        data = [[''temp_in'' \<mapsto> JNum 70, ''hum_in'' \<mapsto> JNum 40]]\<rparr>,
                      \<lparr>sensor_type = 242, data_structure_type = 19, lsid = None,
                        data = [[''bar_sea_level'' \<mapsto> JNum 30]]\<rparr>]\<rparr>
   = Inl (KeyError ''bar_trend'')"
proof -
  let ?good = "\<lparr>sensor_type = 365, data_structure_type = 21, lsid = None,
                        data = [[''temp_in'' \<mapsto> JNum 70, ''hum_in'' \<mapsto> JNum 40]]\<rparr>"
  let ?bad = "\<lparr>sensor_type = 242, data_structure_type = 19, lsid = None,
                        data = [[''bar_sea_level'' \<mapsto> JNum 30]]\<rparr>"
  let ?p = "\<lparr>top = [''station_id_uuid'' \<mapsto> JStr ''u''], dco = None,
      sensors = Some [?good, ?bad]\<rparr>"
  have m: "missing_required ?bad"
    by (simp add: missing_required_def required_fields_def mapping_rules_def data0_has_def
        rule_barometer_def SENSOR_TYPE_VUE_AND_VANTAGE_PRO_def SENSOR_TYPE_AIRLINK_def)
  have s: "sensors ?p = Some ([?good] @ ?bad # [])" by simp
  note t = malformed_record_aborts [OF m, of "JNum 1" Map.empty ?p "[?good]" "[]" "\<lambda>_. None"]
  from t [THEN conjunct2, THEN conjunct1, THEN mp, OF s]
  obtain e where e: "preprocess (\<lambda>_. None) API_V2 (JNum 1) ?p = Inl e" ..
  have "preprocess (\<lambda>_. None) API_V2 (JNum 1) ?p \<noteq> Inl e'" if "e' \<noteq> KeyError ''bar_trend''" for e'
    using that by (simp add: eval_defs)
  with e show ?thesis by metis
qed

text \<open>
  Claim C1 as stated fails: a structure-23 record without \<open>tx_id\<close>, followed by a
  well-formed indoor sensor record, gives \<open>KeyError\<close> and not a snapshot with the
  indoor values.
\<close>

theorem malformed_record_counterexample:
  "preprocess (\<lambda>_. None) API_V2 (JNum 1)
     \<lparr>top = [''station_id_uuid'' \<mapsto> JStr ''u''], dco = None,
      sensors = Some [\<lparr>sensor_type = 37, data_structure_type = 23, lsid = None,
                        data = [[''ts'' \<mapsto> JNum 1700000000, ''temp'' \<mapsto> JNum 72]]\<rparr>,
                      \<lparr>sensor_type = 365, data_structure_type = 21, lsid = None,
                        data = [[''temp_in'' \<mapsto> JNum 70, ''hum_in'' \<mapsto> JNum 40]]\<rparr>]\<rparr>
   = Inl (KeyError ''tx_id'')"
  by (simp add: eval_defs)

subsection \<open>Timestamps\<close>

lemma run_has_key:
  assumes "Copy K f \<in> set sts" "run s tx sts out = Inr out'"
  shows "\<exists>r. out' tx = Some r \<and> K \<in> dom r"
proof -
  from split_list [OF assms(1)] obtain a b where ab: "sts = a @ Copy K f # b" by blast
  from assms(2) ab obtain o1 o2 where
    e: "exec s tx (Copy K f) o1 = Inr o2" and rb: "run s tx b o2 = Inr out'"
    by (auto simp add: run_append split: sum.splits)
  from e obtain r2 where r2: "o2 tx = Some r2" "K \<in> dom r2"
    by (auto split: sum.splits dest!: assign_value)
  from run_frame [OF rb] r2 show ?thesis unfolding frame_def by blast
qed

lemma resolve_target_primary:
  "resolve_target primary s Primary out = Inr (tx, out1) \<Longrightarrow> tx = primary \<and> out1 = out"
  by simp

lemma resolve_target_other:
  "resolve_target primary s tgt out = Inr (tx, out1) \<Longrightarrow> tgt \<noteq> Primary \<Longrightarrow>
   out1 = setdefault tx out"
  by (cases tgt) (auto split: sum.splits option.splits)

lemma timestamped_primary_run:
  assumes inv: "timestamped primary out" and run: "run s primary sts out = Inr out'"
    and w: "set (concat (map writes sts)) \<subseteq> satellite_keys"
  shows "timestamped primary out'"
  unfolding timestamped_def
proof (intro allI impI)
  fix tx r'
  assume r': "out' tx = Some r'"
  note fr = run_frame [OF run]
  show "DataKey ''TIMESTAMP'' \<in> dom r' \<or> (tx = primary \<and> dom r' \<subseteq> satellite_keys)"
  proof (cases "tx = primary")
    case False
    with fr r' have "out tx = Some r'" unfolding frame_def by simp
    with inv show ?thesis unfolding timestamped_def by blast
  next
    case True
    from fr r' True obtain r where r: "out primary = Some r"
      unfolding frame_def by (cases "out primary") auto
    from fr r r' True have d: "dom r \<subseteq> dom r'"
      and k: "\<forall>K. K \<notin> set (concat (map writes sts)) \<longrightarrow> r' K = r K"
      unfolding frame_def by auto
    from inv r have "DataKey ''TIMESTAMP'' \<in> dom r \<or> dom r \<subseteq> satellite_keys"
      unfolding timestamped_def by blast
    then show ?thesis
    proof
      assume "DataKey ''TIMESTAMP'' \<in> dom r"
      with d show ?thesis by blast
    next
      assume s: "dom r \<subseteq> satellite_keys"
      have "dom r' \<subseteq> satellite_keys"
      proof
        fix K assume K: "K \<in> dom r'"
        show "K \<in> satellite_keys"
        proof (cases "K \<in> set (concat (map writes sts))")
          case True
          with w show ?thesis by blast
        next
          case False
          with k have "r' K = r K" by blast
          with K have "K \<in> dom r" by (auto simp add: dom_def)
          with s show ?thesis by blast
        qed
      qed
      with True show ?thesis by blast
    qed
  qed
qed

lemma timestamped_other_run:
  assumes inv: "timestamped primary out" and run: "run s tx sts (setdefault tx out) = Inr out'"
    and ts: "Copy (DataKey ''TIMESTAMP'') ''ts'' \<in> set sts"
  shows "timestamped primary out'"
  unfolding timestamped_def
proof (intro allI impI)
  fix t r'
  assume r': "out' t = Some r'"
  show "DataKey ''TIMESTAMP'' \<in> dom r' \<or> (t = primary \<and> dom r' \<subseteq> satellite_keys)"
  proof (cases "t = tx")
    case True
    from run_has_key [OF ts run] r' True show ?thesis by auto
  next
    case False
    with run_frame [OF run] r' have "setdefault tx out t = Some r'" unfolding frame_def by simp
    with False have "out t = Some r'" by (simp add: setdefault_other)
    with inv show ?thesis unfolding timestamped_def by blast
  qed
qed

lemma apply_rule_timestamped:
  assumes rule: "(c, tgt, sts) \<in> set mapping_rules" and inv: "timestamped primary out"
    and ap: "apply_rule primary s tgt sts out = Inr out'"
  shows "timestamped primary out'"
proof -
  from ap obtain tx out1 where
    rt: "resolve_target primary s tgt out = Inr (tx, out1)" and run: "run s tx sts out1 = Inr out'"
    by (auto simp add: apply_rule_def split: sum.splits)
  show ?thesis
  proof (cases "tgt = Primary")
    case True
    with rt have "tx = primary" "out1 = out" by simp_all
    with run have "run s primary sts out = Inr out'" by simp
    from timestamped_primary_run [OF inv this mapping_rules_satellite [OF rule True]]
    show ?thesis .
  next
    case False
    from resolve_target_other [OF rt False] run have
      "run s tx sts (setdefault tx out) = Inr out'" by simp
    from timestamped_other_run [OF inv this mapping_rules_timestamp [OF rule False]]
    show ?thesis .
  qed
qed

lemma process_rules_timestamped:
  "set rs \<subseteq> set mapping_rules \<Longrightarrow> timestamped primary out \<Longrightarrow>
   process_rules primary s rs out = Inr out' \<Longrightarrow> timestamped primary out'"
proof (induction rs arbitrary: out)
  case Nil
  then show ?case by simp
next
  case (Cons rl rs)
  obtain c tgt sts where rl: "rl = (c, tgt, sts)" by (cases rl)
  from Cons.prems(3) rl obtain out1 where
    a: "(if c s then apply_rule primary s tgt sts out else Inr out) = Inr out1"
    and b: "process_rules primary s rs out1 = Inr out'"
    by (auto split: sum.splits)
  from Cons.prems(1) rl have m: "(c, tgt, sts) \<in> set mapping_rules" by simp
  from a Cons.prems(2) apply_rule_timestamped [OF m] have "timestamped primary out1"
    by (auto split: if_splits)
  with Cons.IH [OF _ _ b] Cons.prems(1) show ?case by simp
qed

lemma process_sensors_timestamped:
  "timestamped primary out \<Longrightarrow> process_sensors primary ss out = Inr out' \<Longrightarrow>
   timestamped primary out'"
proof (induction ss arbitrary: out)
  case Nil
  then show ?case by simp
next
  case (Cons s ss)
  from Cons.prems(2) obtain out1 where
    a: "process_sensor primary s out = Inr out1"
    and b: "process_sensors primary ss out1 = Inr out'"
    by (auto split: sum.splits)
  from a Cons.prems(1) have "timestamped primary out1"
    unfolding process_sensor_def by (auto intro: process_rules_timestamped)
  from Cons.IH [OF this b] show ?case .
qed

lemma timestamped_initial: "timestamped primary (setdefault primary Map.empty)"
  by (simp add: timestamped_def setdefault_def)

text \<open>
  Claim C2, as the code has it. In every result of \<open>_preprocess\<close>, a transmitter record
  has a timestamp, unless it is the record of the primary transmitter of a modern-shape
  payload and holds nothing but the keys that the indoor temperature/humidity and the
  barometer rules write (\<open>TEMP_IN\<close>, \<open>HUM_IN\<close>, \<open>BAR_SEA_LEVEL\<close>, \<open>BAR_TREND\<close>).
\<close>

theorem timestamp_invariant:
  assumes "preprocess rfc822 api primary indata = Inr snap" and "tx_records snap tx = Some r"
  shows "DataKey ''TIMESTAMP'' \<in> dom r
       \<or> (api = API_V2 \<and> tx = primary \<and> dom r \<subseteq> satellite_keys)"
proof (cases api)
  case API_V1
  with assms(1) have
    "legacy rfc822 indata \<lparr>tx_records = Map.empty, uuid_entry = None\<rparr> = Inr snap"
    by (simp add: preprocess_def split: sum.splits)
  from legacy_result [OF this] have d: "dom (tx_records snap) = {JNum 1}"
    and f: "snapshot_field (Inr snap) (JNum 1) (DataKey ''TIMESTAMP'') \<noteq> None"
    by auto
  from assms(2) have "tx \<in> dom (tx_records snap)" by blast
  with d have "tx = JNum 1" by simp
  with f assms(2) have "r (DataKey ''TIMESTAMP'') \<noteq> None"
    by (simp add: snapshot_field_def)
  then show ?thesis by blast
next
  case API_V2
  with assms(1) obtain out' where
    p: "process_sensors primary (the (sensors indata)) (setdefault primary Map.empty) = Inr out'"
    and s: "tx_records snap = out'"
    by (auto simp add: preprocess_def modern_def split: sum.splits option.splits)
  from process_sensors_timestamped [OF timestamped_initial p] s assms(2) API_V2
  show ?thesis unfolding timestamped_def by blast
qed

text \<open>
  Claim C2 as stated fails: a payload whose only sensor record is an indoor
  temperature/humidity sensor gives the primary transmitter a record with two
  observation fields and no timestamp.
\<close>

theorem timestamp_invariant_counterexample:
  "preprocess (\<lambda>_. None) API_V2 (JNum 1)
     \<lparr>top = [''station_id_uuid'' \<mapsto> JStr ''u''], dco = None,
      sensors = Some [\<lparr>sensor_type = 365, data_structure_type = 21, lsid = None,
                        data = [[''temp_in'' \<mapsto> JNum 70, ''hum_in'' \<mapsto> JNum 40]]\<rparr>]\<rparr>
   = Inr \<lparr>tx_records = [JNum 1 \<mapsto> [DataKey ''TEMP_IN'' \<mapsto> JNum 70, DataKey ''HUM_IN'' \<mapsto> JNum 40]],
          uuid_entry = Some (JStr ''u'')\<rparr>
   \<and> [DataKey ''TEMP_IN'' \<mapsto> JNum 70, DataKey ''HUM_IN'' \<mapsto> JNum 40] (DataKey ''TIMESTAMP'') = None"
  by (simp add: eval_defs)

theorem timestamp_invariant_witness:
  "DataKey ''TIMESTAMP'' \<in> dom [DataKey ''TEMP_IN'' \<mapsto> JNum 70, DataKey ''HUM_IN'' \<mapsto> JNum 40]
   \<or> (API_V2 = API_V2 \<and> JNum 1 = JNum 1
       \<and> dom [DataKey ''TEMP_IN'' \<mapsto> JNum 70, DataKey ''HUM_IN'' \<mapsto> JNum 40] \<subseteq> satellite_keys)"
proof -
  have e: "preprocess (\<lambda>_. None) API_V2 (JNum 1)
     \<lparr>top = [''station_id_uuid'' \<mapsto> JStr ''u''], dco = None,
      sensors = Some [\<lparr>sensor_type = 365, data_structure_type = 21, lsid = None,
                        data = [[''temp_in'' \<mapsto> JNum 70, ''hum_in'' \<mapsto> JNum 40]]\<rparr>]\<rparr>
   = Inr \<lparr>tx_records = [JNum 1 \<mapsto> [DataKey ''TEMP_IN'' \<mapsto> JNum 70, DataKey ''HUM_IN'' \<mapsto> JNum 40]],
          uuid_entry = Some (JStr ''u'')\<rparr>"
    by (simp add: eval_defs)
  have t: "tx_records \<lparr>tx_records = [JNum 1 \<mapsto> [DataKey ''TEMP_IN'' \<mapsto> JNum 70, DataKey ''HUM_IN'' \<mapsto> JNum 40]],
          uuid_entry = Some (JStr ''u'')\<rparr> (JNum 1)
      = Some [DataKey ''TEMP_IN'' \<mapsto> JNum 70, DataKey ''HUM_IN'' \<mapsto> JNum 40]"
    by simp
  from timestamp_invariant [OF e t] show ?thesis .
qed

subsection \<open>The value a line stores\<close>

lemma coalesced_iff:
  "(K, f) \<in> set (coalesced sts) \<longleftrightarrow> Coalesce K f (JNum 0) (JNum 0) \<in> set sts"
proof (induction sts)
  case Nil
  then show ?case by simp
next
  case (Cons st sts)
  then show ?case by (cases st) auto
qed

lemma exec_coalesce_value:
  assumes "exec s tx (Coalesce K f (JNum 0) (JNum 0)) ox = Inr ox'" "data0 s = Inr d"
    "d f = None \<or> d f = Some JNull"
  shows "\<exists>r. ox' tx = Some r \<and> r K = Some (JNum 0)"
  using assms
  by (auto simp add: data0_get_def get_default_def dest!: assign_value)

lemma run_exec_ok:
  "st \<in> set sts \<Longrightarrow> run s tx sts out = Inr out' \<Longrightarrow> \<exists>ox ox'. exec s tx st ox = Inr ox'"
proof (induction sts arbitrary: out)
  case Nil
  then show ?case by simp
next
  case (Cons a sts)
  from Cons.prems(2) obtain out1 where
    e: "exec s tx a out = Inr out1" and r: "run s tx sts out1 = Inr out'"
    by (auto split: sum.splits)
  show ?case
  proof (cases "st = a")
    case True
    with e show ?thesis by blast
  next
    case False
    with Cons.prems(1) have "st \<in> set sts" by simp
    from Cons.IH [OF this r] show ?thesis .
  qed
qed




lemma matched_rule_run:
  assumes "(c, tgt, sts) \<in> set mapping_rules" "c s" "tgt \<noteq> Primary"
    "process_sensor primary s out = Inr out'"
  shows "\<exists>tx r. resolve_target primary s tgt out = Inr (tx, setdefault tx out)
           \<and> run s tx sts (setdefault tx out) = Inr out' \<and> out' tx = Some r"
proof -
  from assms(4) process_sensor_unique [OF assms(1,2)] obtain tx out1 where
    rt: "resolve_target primary s tgt out = Inr (tx, out1)" and run: "run s tx sts out1 = Inr out'"
    by (auto simp add: apply_rule_def split: sum.splits)
  from resolve_target_other [OF rt assms(3)] have o: "out1 = setdefault tx out" .
  from run_frame [OF run] o obtain r where "out' tx = Some r"
    unfolding frame_def by (auto simp add: setdefault_same)
  with rt run o show ?thesis by blast
qed

lemma resolve_target_tx:
  assumes "resolve_target primary s tgt out = Inr (tx, out1)" "data0 s = Inr d"
  shows "(tgt = TxRequired \<longrightarrow> d ''tx_id'' = Some tx)
       \<and> (tgt = TxDefault1 \<longrightarrow> tx = get_default d ''tx_id'' (JNum 1))"
  using assms
  by (cases tgt)
     (auto simp add: data0_subscript_def data0_get_def subscript_def
       split: sum.splits option.splits)

subsection \<open>The zero-default policy\<close>

lemma console_23_example_runs:
  "\<exists>out'. process_sensor (JNum 1) console_23_example Map.empty = Inr out'"
  by (simp add: eval_defs console_23_example_def)

lemma coalesced_tables:
  "map snd (coalesced rule_vue_10) =
     [''rainfall_last_15_min_in'', ''rainfall_last_60_min_in'', ''rainfall_last_24_hr_in'',
      ''rain_storm_in'', ''rain_storm_last_in'']"
  "map snd (coalesced rule_vue_2) = [''rain_storm_in'']"
  "map snd (coalesced rule_vue_23) =
     [''wind_speed_hi_last_10_min'', ''wind_speed_avg_last_1_min'', ''wind_speed_avg_last_2_min'',
      ''wind_speed_avg_last_10_min'', ''wind_speed_hi_last_2_min'',
      ''wind_dir_scalar_avg_last_2_min'', ''wind_dir_scalar_avg_last_10_min'',
      ''wind_dir_at_hi_speed_last_10_min'', ''wind_dir_at_hi_speed_last_2_min'',
      ''rainfall_last_15_min_in'', ''rainfall_last_60_min_in'', ''rainfall_last_24_hr_in'',
      ''rain_storm_current_in'', ''rain_storm_last_in'', ''rain_rate_last_in'',
      ''rain_rate_hi_in'', ''rain_rate_hi_last_15_min_in'', ''rainfall_month_in'',
      ''rainfall_year_in'']"
  by (simp_all add: rule_vue_10_def rule_vue_2_def rule_vue_23_def copy_indexed_def upt_rec)


lemma zero_default_stored:
  assumes "(c, tgt, sts) \<in> set mapping_rules" and "c s" and "tgt \<noteq> Primary"
    and "process_sensor primary s out = Inr out'" and "data0 s = Inr d"
  shows "\<exists>tx r. resolve_target primary s tgt out = Inr (tx, setdefault tx out)
           \<and> out' tx = Some r
           \<and> (\<forall>K f. (K, f) \<in> set (coalesced sts) \<and> (d f = None \<or> d f = Some JNull) \<longrightarrow>
                 r K = Some (JNum 0))
           \<and> d ''ts'' \<noteq> None \<and> r (DataKey ''TIMESTAMP'') = d ''ts''
           \<and> (tgt = TxRequired \<longrightarrow> d ''tx_id'' = Some tx)
           \<and> (tgt = TxDefault1 \<longrightarrow> tx = get_default d ''tx_id'' (JNum 1))"
proof -
  from matched_rule_run [OF assms(1-4)] obtain tx r where
    rt: "resolve_target primary s tgt out = Inr (tx, setdefault tx out)"
    and run: "run s tx sts (setdefault tx out) = Inr out'" and r: "out' tx = Some r"
    by blast
  note dist = mapping_rules_distinct [OF assms(1)]
  have zero: "r K = Some (JNum 0)"
    if "(K, f) \<in> set (coalesced sts)" "d f = None \<or> d f = Some JNull" for K f
  proof -
    from that(1) have m: "Coalesce K f (JNum 0) (JNum 0) \<in> set sts" by (simp add: coalesced_iff)
    have u: "\<forall>st' \<in> set sts. st' = Coalesce K f (JNum 0) (JNum 0) \<or> K \<notin> set (writes st')"
      using dist m by (rule distinct_writes_unique) simp
    have "\<exists>r. out' tx = Some r \<and> r K = Some (JNum 0)"
      using run m u
    proof (rule run_last_write)
      fix ox ox'
      assume "exec s tx (Coalesce K f (JNum 0) (JNum 0)) ox = Inr ox'"
      from exec_coalesce_value [OF this assms(5) that(2)]
      show "\<exists>r. ox' tx = Some r \<and> r K = Some (JNum 0)" .
    qed
    with r show ?thesis by simp
  qed
  have ts: "d ''ts'' \<noteq> None \<and> r (DataKey ''TIMESTAMP'') = d ''ts''"
  proof -
    note m = mapping_rules_timestamp [OF assms(1,3)]
    have u: "\<forall>st' \<in> set sts. st' = Copy (DataKey ''TIMESTAMP'') ''ts''
                \<or> DataKey ''TIMESTAMP'' \<notin> set (writes st')"
      using dist m by (rule distinct_writes_unique) simp
    from run_exec_ok [OF m run] obtain ox ox' where
      "exec s tx (Copy (DataKey ''TIMESTAMP'') ''ts'') ox = Inr ox'" by blast
    from exec_copy_value [OF this assms(5)] have p: "d ''ts'' \<noteq> None" by blast
    have "\<exists>r. out' tx = Some r \<and> r (DataKey ''TIMESTAMP'') = d ''ts''"
      using run m u
    proof (rule run_last_write)
      fix ox ox'
      assume "exec s tx (Copy (DataKey ''TIMESTAMP'') ''ts'') ox = Inr ox'"
      from exec_copy_value [OF this assms(5)]
      show "\<exists>r. ox' tx = Some r \<and> r (DataKey ''TIMESTAMP'') = d ''ts''" by blast
    qed
    with r p show ?thesis by simp
  qed
  from rt r zero ts resolve_target_tx [OF rt assms(5)] show ?thesis by blast
qed

text \<open>
  The lines that carry the policy. When the rule of a sensor record that carries its own
  transmitter id has run without an exception, every key of a zero-default line of that
  rule holds 0 in the
  record of the transmitter if the field read is absent from \<open>sensor["data"][0]\<close> or
  is \<open>None\<close> there; the timestamp stored is the value of \<open>ts\<close> as it came, which is
  present; and the transmitter id is the value of \<open>tx_id\<close> as it came (for structure 2,
  1 when \<open>tx_id\<close> is absent). The zero-default lines of the weather-data rules are, for
  structure 10, the three rainfall windows and the two storm totals; for structure 2,
  the storm total; for structure 23, among others, the three rainfall windows, the two
  storm totals, the three rain rates and the month and year totals.
\<close>

theorem zero_default_policy:
  assumes "(c, tgt, sts) \<in> set mapping_rules" and "c s" and "tgt \<noteq> Primary"
    and "process_sensor primary s out = Inr out'" and "data0 s = Inr d"
  shows "(\<exists>tx r. resolve_target primary s tgt out = Inr (tx, setdefault tx out)
           \<and> out' tx = Some r
           \<and> (\<forall>K f. (K, f) \<in> set (coalesced sts) \<and> (d f = None \<or> d f = Some JNull) \<longrightarrow>
                 r K = Some (JNum 0))
           \<and> d ''ts'' \<noteq> None \<and> r (DataKey ''TIMESTAMP'') = d ''ts''
           \<and> (tgt = TxRequired \<longrightarrow> d ''tx_id'' = Some tx)
           \<and> (tgt = TxDefault1 \<longrightarrow> tx = get_default d ''tx_id'' (JNum 1)))
       \<and> map snd (coalesced rule_vue_10) =
           [''rainfall_last_15_min_in'', ''rainfall_last_60_min_in'', ''rainfall_last_24_hr_in'',
            ''rain_storm_in'', ''rain_storm_last_in'']
       \<and> map snd (coalesced rule_vue_2) = [''rain_storm_in'']
       \<and> set [''rainfall_last_15_min_in'', ''rainfall_last_60_min_in'', ''rainfall_last_24_hr_in'',
            ''rain_storm_current_in'', ''rain_storm_last_in'', ''rain_rate_last_in'',
            ''rain_rate_hi_in'', ''rain_rate_hi_last_15_min_in'', ''rainfall_month_in'',
            ''rainfall_year_in''] \<subseteq> set (map snd (coalesced rule_vue_23))"
proof -
  have t: "map snd (coalesced rule_vue_10) =
           [''rainfall_last_15_min_in'', ''rainfall_last_60_min_in'', ''rainfall_last_24_hr_in'',
            ''rain_storm_in'', ''rain_storm_last_in'']
       \<and> map snd (coalesced rule_vue_2) = [''rain_storm_in'']
       \<and> set [''rainfall_last_15_min_in'', ''rainfall_last_60_min_in'', ''rainfall_last_24_hr_in'',
            ''rain_storm_current_in'', ''rain_storm_last_in'', ''rain_rate_last_in'',
            ''rain_rate_hi_in'', ''rain_rate_hi_last_15_min_in'', ''rainfall_month_in'',
            ''rainfall_year_in''] \<subseteq> set (map snd (coalesced rule_vue_23))"
    by (simp add: coalesced_tables)
  from zero_default_stored [OF assms] t show ?thesis by blast
qed

theorem zero_default_policy_witness:
  "\<exists>out' r. process_sensor (JNum 1) console_23_example Map.empty = Inr out'
      \<and> out' (JNum 2) = Some r
      \<and> r (DataKey ''RAIN_DAY_15M'') = Some (JNum 0)
      \<and> r (DataKey ''RAIN_DAY_60M'') = Some (JNum 0)
      \<and> r (DataKey ''TIMESTAMP'') = Some (JNum 1700000000)"
proof -
  let ?c = "\<lambda>s. (sensor_type s \<in> set SENSOR_TYPE_VUE_AND_VANTAGE_PRO \<or> sensor_type s \<in> set [55])
            \<and> data_structure_type s = 23"
  have m: "(?c, TxRequired, rule_vue_23) \<in> set mapping_rules" by (simp add: mapping_rules_def)
  have c: "?c console_23_example"
    by (simp add: console_23_example_def SENSOR_TYPE_VUE_AND_VANTAGE_PRO_def)
  have t: "TxRequired \<noteq> Primary" by simp
  from console_23_example_runs
  obtain out' where ok: "process_sensor (JNum 1) console_23_example Map.empty = Inr out'" ..
  obtain d where d: "data0 console_23_example = Inr d"
    and d15: "d ''rainfall_last_15_min_in'' = None"
    and d60: "d ''rainfall_last_60_min_in'' = Some JNull"
    and dts: "d ''ts'' = Some (JNum 1700000000)"
    and dtx: "d ''tx_id'' = Some (JNum 2)"
    by (simp add: data0_def console_23_example_def)
  from zero_default_policy [OF m c t ok d] obtain tx r where
    r: "out' tx = Some r"
    and z: "\<forall>K f. (K, f) \<in> set (coalesced rule_vue_23) \<and> (d f = None \<or> d f = Some JNull) \<longrightarrow>
                 r K = Some (JNum 0)"
    and ts: "r (DataKey ''TIMESTAMP'') = d ''ts''"
    and tx: "d ''tx_id'' = Some tx"
    by blast
  have k15: "(DataKey ''RAIN_DAY_15M'', ''rainfall_last_15_min_in'') \<in> set (coalesced rule_vue_23)"
    by (simp add: coalesced_iff rule_vue_23_def)
  have k60: "(DataKey ''RAIN_DAY_60M'', ''rainfall_last_60_min_in'') \<in> set (coalesced rule_vue_23)"
    by (simp add: coalesced_iff rule_vue_23_def)
  from z k15 d15 have a: "r (DataKey ''RAIN_DAY_15M'') = Some (JNum 0)" by blast
  from z k60 d60 have b: "r (DataKey ''RAIN_DAY_60M'') = Some (JNum 0)" by blast
  from tx dtx have "tx = JNum 2" by simp
  with ok r a b ts dts show ?thesis by auto
qed

text \<open>
  Claim C4 fails on the daily rain total. The line that stores \<open>DataKey.RAIN_DAY\<close>
  reads \<open>rainfall_day_in\<close> (\<open>rainfall_daily_in\<close> for structure 10) with the default
  \<open>0.0\<close> and has no test for \<open>None\<close>, which the lines after it for the rainfall of
  the last 15 minutes, 60 minutes and 24 hours have. For a structure-23 record whose
  \<open>rainfall_day_in\<close> and \<open>rainfall_last_60_min_in\<close> are both \<open>None\<close>, the daily total
  stored is \<open>None\<close> and the total of the last 60 minutes is 0; with \<open>rainfall_day_in\<close>
  absent the daily total stored is 0.
\<close>

theorem daily_rain_null_stays_null:
  "snapshot_field
     (preprocess (\<lambda>_. None) API_V2 (JNum 1)
        \<lparr>top = [''station_id_uuid'' \<mapsto> JStr ''u''], dco = None,
         sensors = Some [console_23_null_daily]\<rparr>)
     (JNum 2) (DataKey ''RAIN_DAY'') = Some JNull
   \<and> snapshot_field
     (preprocess (\<lambda>_. None) API_V2 (JNum 1)
        \<lparr>top = [''station_id_uuid'' \<mapsto> JStr ''u''], dco = None,
         sensors = Some [console_23_null_daily]\<rparr>)
     (JNum 2) (DataKey ''RAIN_DAY_60M'') = Some (JNum 0)
   \<and> snapshot_field
     (preprocess (\<lambda>_. None) API_V2 (JNum 1)
        \<lparr>top = [''station_id_uuid'' \<mapsto> JStr ''u''], dco = None,
         sensors = Some [console_23_example]\<rparr>)
     (JNum 2) (DataKey ''RAIN_DAY'') = Some (JNum 0)"
proof -
  have a: "map (snapshot_field
     (preprocess (\<lambda>_. None) API_V2 (JNum 1)
        \<lparr>top = [''station_id_uuid'' \<mapsto> JStr ''u''], dco = None,
         sensors = Some [console_23_null_daily]\<rparr>) (JNum 2))
      [DataKey ''RAIN_DAY'', DataKey ''RAIN_DAY_60M''] = [Some JNull, Some (JNum 0)]"
    by (simp add: eval_defs console_23_null_daily_def)
  have b: "snapshot_field
     (preprocess (\<lambda>_. None) API_V2 (JNum 1)
        \<lparr>top = [''station_id_uuid'' \<mapsto> JStr ''u''], dco = None,
         sensors = Some [console_23_example]\<rparr>)
     (JNum 2) (DataKey ''RAIN_DAY'') = Some (JNum 0)"
    by (simp add: eval_defs console_23_example_def)
  from a b show ?thesis by simp
qed

subsection \<open>Scale transforms\<close>





subsection \<open>The compass bucket\<close>


























end
